theory Spec2Isabelle
  imports Main "HOL-Library.Sublist"
begin

section \<open>AIO SSL Tool: the certificate core of \<^verbatim>\<open>aio_ssl_tool.py\<close>\<close>

text \<open>
  The development embeds the certificate-handling methods of \<^verbatim>\<open>AIOSSLToolApp\<close>:
  \<^verbatim>\<open>load_certificates_from_pem\<close>, \<^verbatim>\<open>is_self_signed\<close>, \<^verbatim>\<open>verify_signature\<close>,
  \<^verbatim>\<open>fetch_issuer_from_windows\<close>, \<^verbatim>\<open>_build_chain_thread\<close>, \<^verbatim>\<open>create_pfx_advanced\<close>,
  \<^verbatim>\<open>extract_key\<close>, \<^verbatim>\<open>generate_csr_from_data\<close> and its caller \<^verbatim>\<open>generate_csr_inline\<close>.

  The program is glue around three libraries (\<^verbatim>\<open>cryptography\<close>, \<^verbatim>\<open>ipaddress\<close>,
  \<^verbatim>\<open>wincertstore\<close>). Their functions are not part of the program; they are taken as
  parameters, collected in the record \<open>crypto_lib\<close> and in the store argument, and
  every theorem holds for any library unless it states a hypothesis about it. What
  Python itself does around a library call (positional-argument arity, truthiness,
  \<^verbatim>\<open>try/except\<close>) is modelled.
\<close>

subsection \<open>Bytes, strings and Python's \<^verbatim>\<open>split\<close>\<close>

text \<open>
  \<^verbatim>\<open>bytes\<close> and \<^verbatim>\<open>str\<close> are both modelled as \<^typ>\<open>string\<close>; a \<^verbatim>\<open>str\<close> is read as its
  sequence of code points, restricted to the range a \<^typ>\<open>char\<close> has (0 to 255).
\<close>

type_synonym bytes = string

definition BEGIN_CERTIFICATE :: bytes where
  "BEGIN_CERTIFICATE = ''-----BEGIN CERTIFICATE-----''"

definition END_CERTIFICATE :: bytes where
  "END_CERTIFICATE = ''-----END CERTIFICATE-----''"

text \<open>
  \<^verbatim>\<open>data.split(sep)\<close> cuts at the non-overlapping occurrences of \<open>sep\<close>, scanning from
  the left; the result always has at least one piece. Python raises \<^verbatim>\<open>ValueError\<close> for
  an empty separator; the program only splits on \<open>END_CERTIFICATE\<close>, and the model
  returns the data as one piece there.
\<close>

function bytes_split :: "bytes \<Rightarrow> bytes \<Rightarrow> bytes list" where
  "bytes_split [] sep = [[]]"
| "bytes_split (c # cs) sep =
     (if sep \<noteq> [] \<and> prefix sep (c # cs)
      then [] # bytes_split (drop (length sep) (c # cs)) sep
      else (case bytes_split cs sep of
              [] \<Rightarrow> [[c]]
            | piece # pieces \<Rightarrow> (c # piece) # pieces))"
  by pat_completeness auto
termination
  by (relation "measure (\<lambda>(data, sep). length data)") auto

subsection \<open>Certificates and the library\<close>

datatype error =
    ValueError string
  | TypeError
  | InvalidSignature
  | FileNotFoundError string
  | UnsupportedAlgorithm
  | AttributeError

text \<open>The attribute kinds of \<^verbatim>\<open>NameOID\<close> the program uses; a name is its attribute list.\<close>

datatype name_oid =
    COUNTRY_NAME
  | STATE_OR_PROVINCE_NAME
  | LOCALITY_NAME
  | ORGANIZATION_NAME
  | ORGANIZATIONAL_UNIT_NAME
  | COMMON_NAME
  | EMAIL_ADDRESS

type_synonym name_attribute = "name_oid \<times> string"

type_synonym name = "name_attribute list"

datatype hash_algorithm = SHA1 | SHA256 | SHA384 | SHA512

datatype salt_length = MAX_LENGTH | Salt nat

text \<open>\<open>PSS h s\<close> stands for \<^verbatim>\<open>padding.PSS(mgf=padding.PSS.MGF1(h), salt_length=s)\<close>.\<close>

datatype padding = PKCS1v15 | PSS hash_algorithm salt_length

text \<open>
  The class of a public key object decides which \<^verbatim>\<open>verify\<close> method a call reaches;
  the number is the key material. \<open>OtherPublicKey\<close> stands for the remaining key
  classes of the library (DSA, Ed25519, Ed448), whose \<^verbatim>\<open>verify\<close> takes two or three
  arguments.
\<close>

datatype public_key =
    RSAPublicKey nat
  | EllipticCurvePublicKey nat
  | OtherPublicKey nat

record certificate =
  subject :: name
  issuer :: name
  public_key :: public_key
  signature :: bytes
  tbs_certificate_bytes :: bytes
  signature_hash_algorithm :: hash_algorithm

text \<open>A positional argument of a Python call, as far as \<^verbatim>\<open>verify\<close> sees them.\<close>

datatype pyval =
    PyBytes bytes
  | PyPadding padding
  | PyHash hash_algorithm
  | PyECDSA hash_algorithm

subsection \<open>Keys, containers and requests\<close>

datatype curve = SECP256R1 | SECP384R1 | SECP521R1

text \<open>
  A private key object: an RSA key carries its public exponent and bit length, an
  elliptic-curve key its curve; the last number is the secret material.
\<close>

datatype private_key =
    RSAPrivateKey int int nat
  | EllipticCurvePrivateKey curve nat

datatype encoding = PEM | DER

datatype private_format = TraditionalOpenSSL | PKCS8

datatype key_encryption = NoEncryption | BestAvailableEncryption bytes

datatype ip_address = IPv4Address int | IPv6Address int

datatype general_name = DNSName string | IPAddress ip_address

record key_usage =
  digital_signature :: bool
  content_commitment :: bool
  key_encipherment :: bool
  data_encipherment :: bool
  key_agreement :: bool
  key_cert_sign :: bool
  crl_sign :: bool
  encipher_only :: bool
  decipher_only :: bool

datatype extended_key_usage_oid = SERVER_AUTH | CLIENT_AUTH

datatype extension_value =
    SubjectAlternativeName "general_name list"
  | KeyUsage key_usage
  | ExtendedKeyUsage "extended_key_usage_oid list"

text \<open>An extension of a request is its value and its \<^verbatim>\<open>critical\<close> flag.\<close>

type_synonym extension = "extension_value \<times> bool"

record certificate_signing_request =
  csr_subject :: name
  csr_extensions :: "extension list"
  csr_key :: private_key
  csr_signature_hash :: hash_algorithm
  csr_signature :: bytes

text \<open>
  The library functions the program calls, as parameters. A function that can raise
  returns \<open>None\<close> or \<open>Inl\<close> there.
  \<^item> \<open>load_pem_x509_certificate\<close>, \<open>public_bytes\<close>: PEM decoding and encoding of one
    certificate;
  \<^item> \<open>rsa_verify\<close>, \<open>ecdsa_verify\<close>: the mathematical checks behind the two
    \<^verbatim>\<open>verify\<close> methods;
  \<^item> \<open>load_pem_private_key data password\<close>, \<open>private_bytes key encoding format encryption\<close>:
    decoding and encoding of a private key;
  \<^item> \<open>serialize_key_and_certificates name key cert cas encryption\<close> and
    \<open>load_key_and_certificates data password\<close>: the PKCS#12 writer and reader;
  \<^item> \<open>rsa_generate_private_key public_exponent key_size\<close>: the secret material of a new
    RSA key, or the error with which the library rejects the parameters;
    \<open>ec_generate_private_key curve\<close>: the material of a new elliptic-curve key;
  \<^item> \<open>name_attribute_check oid value\<close>: the error \<^verbatim>\<open>x509.NameAttribute\<close> raises, if any;
    \<open>dns_name_check value\<close>: the error \<^verbatim>\<open>x509.DNSName\<close> raises, if any;
  \<^item> \<open>ip_address\<close>: \<^verbatim>\<open>ipaddress.ip_address\<close>, \<open>None\<close> for its \<^verbatim>\<open>ValueError\<close>;
  \<^item> \<open>sign_request key hash subject extensions\<close>: the signature \<^verbatim>\<open>builder.sign\<close> computes;
    \<open>csr_public_bytes\<close>: the PEM encoding of a request.
\<close>

record crypto_lib =
  load_pem_x509_certificate :: "bytes \<Rightarrow> certificate option"
  public_bytes :: "certificate \<Rightarrow> bytes"
  rsa_verify :: "nat \<Rightarrow> bytes \<Rightarrow> bytes \<Rightarrow> padding \<Rightarrow> hash_algorithm \<Rightarrow> bool"
  ecdsa_verify :: "nat \<Rightarrow> bytes \<Rightarrow> bytes \<Rightarrow> hash_algorithm \<Rightarrow> bool"
  load_pem_private_key :: "bytes \<Rightarrow> bytes option \<Rightarrow> error + private_key"
  private_bytes :: "private_key \<Rightarrow> encoding \<Rightarrow> private_format \<Rightarrow> key_encryption \<Rightarrow> bytes"
  serialize_key_and_certificates ::
    "bytes \<Rightarrow> private_key \<Rightarrow> certificate \<Rightarrow> certificate list option \<Rightarrow> key_encryption
       \<Rightarrow> error + bytes"
  load_key_and_certificates ::
    "bytes \<Rightarrow> bytes option
       \<Rightarrow> error + (private_key option \<times> certificate option \<times> certificate list)"
  rsa_generate_private_key :: "int \<Rightarrow> int \<Rightarrow> error + nat"
  ec_generate_private_key :: "curve \<Rightarrow> nat"
  name_attribute_check :: "name_oid \<Rightarrow> string \<Rightarrow> error option"
  dns_name_check :: "string \<Rightarrow> error option"
  ip_address :: "string \<Rightarrow> ip_address option"
  sign_request :: "private_key \<Rightarrow> hash_algorithm \<Rightarrow> name \<Rightarrow> extension list \<Rightarrow> error + bytes"
  csr_public_bytes :: "certificate_signing_request \<Rightarrow> bytes"

subsection \<open>PEM codec: \<^verbatim>\<open>load_certificates_from_pem\<close>\<close>

text \<open>
  The body of the \<^verbatim>\<open>for block in ...\<close> loop, with \<open>certs\<close> the list built so far: a block
  without the begin marker is skipped, a block the library rejects is dropped by the
  bare \<^verbatim>\<open>except: pass\<close>.
\<close>

fun decode_blocks :: "crypto_lib \<Rightarrow> bytes list \<Rightarrow> certificate list \<Rightarrow> certificate list" where
  "decode_blocks L [] certs = certs"
| "decode_blocks L (block # blocks) certs =
     (if sublist BEGIN_CERTIFICATE block
      then (case load_pem_x509_certificate L (block @ END_CERTIFICATE @ [CHR 0x0A]) of
              Some c \<Rightarrow> decode_blocks L blocks (certs @ [c])
            | None \<Rightarrow> decode_blocks L blocks certs)
      else decode_blocks L blocks certs)"

definition load_certificates_from_pem :: "crypto_lib \<Rightarrow> bytes \<Rightarrow> certificate list" where
  "load_certificates_from_pem L data = decode_blocks L (bytes_split data END_CERTIFICATE) []"

subsection \<open>Signature verifier: \<^verbatim>\<open>is_self_signed\<close> and \<^verbatim>\<open>verify_signature\<close>\<close>

definition is_self_signed :: "certificate \<Rightarrow> bool" where
  "is_self_signed cert = (issuer cert = subject cert)"

text \<open>
  The \<^verbatim>\<open>verify\<close> methods of the library, as its documentation declares them:
  \<^verbatim>\<open>RSAPublicKey.verify(signature, data, padding, algorithm)\<close> and
  \<^verbatim>\<open>EllipticCurvePublicKey.verify(signature, data, signature_algorithm)\<close>, the latter
  expecting an \<^verbatim>\<open>ec.ECDSA(hash)\<close> object. Both return nothing and raise
  \<^verbatim>\<open>InvalidSignature\<close> on a bad signature. A call whose positional arguments do not
  fit the method's parameters raises \<^verbatim>\<open>TypeError\<close>, as Python does.
\<close>

definition public_key_verify :: "crypto_lib \<Rightarrow> public_key \<Rightarrow> pyval list \<Rightarrow> error + unit" where
  "public_key_verify L key args =
     (case key of
        RSAPublicKey k \<Rightarrow>
          (case args of
             [PyBytes s, PyBytes d, PyPadding p, PyHash h] \<Rightarrow>
               (if rsa_verify L k s d p h then Inr () else Inl InvalidSignature)
           | _ \<Rightarrow> Inl TypeError)
      | EllipticCurvePublicKey k \<Rightarrow>
          (case args of
             [PyBytes s, PyBytes d, PyECDSA h] \<Rightarrow>
               (if ecdsa_verify L k s d h then Inr () else Inl InvalidSignature)
           | _ \<Rightarrow> Inl TypeError)
      | OtherPublicKey k \<Rightarrow> Inl TypeError)"

definition is_rsa :: "public_key \<Rightarrow> bool" where
  "is_rsa key = (case key of RSAPublicKey k \<Rightarrow> True | _ \<Rightarrow> False)"

text \<open>
  The third argument of the call. For an RSA key it is \<^verbatim>\<open>padding.PKCS1v15()\<close>. For every
  other key the source writes \<^verbatim>\<open>padding.PSS(mgf=padding.PSS.MGF1(hashes.SHA256()), ...)\<close>:
  the class \<^verbatim>\<open>PSS\<close> has no attribute \<^verbatim>\<open>MGF1\<close> (the mask function is \<^verbatim>\<open>padding.MGF1\<close>), so
  evaluating the expression raises \<^verbatim>\<open>AttributeError\<close> before \<^verbatim>\<open>verify\<close> is called.
\<close>

definition padding_argument :: "public_key \<Rightarrow> error + padding" where
  "padding_argument key = (if is_rsa key then Inr PKCS1v15 else Inl AttributeError)"

text \<open>
  \<^verbatim>\<open>verify_signature(child, parent)\<close>: one call of \<^verbatim>\<open>parent.public_key().verify\<close> with
  four positional arguments, the third chosen by \<^verbatim>\<open>isinstance(..., rsa.RSAPublicKey)\<close>;
  any exception, of the argument or of the call, gives \<^verbatim>\<open>False\<close>.
\<close>

definition verify_signature :: "crypto_lib \<Rightarrow> certificate \<Rightarrow> certificate \<Rightarrow> bool" where
  "verify_signature L child parent =
     (case padding_argument (public_key parent) of
        Inl e \<Rightarrow> False
      | Inr p \<Rightarrow>
          (case public_key_verify L (public_key parent)
                  [PyBytes (signature child),
                   PyBytes (tbs_certificate_bytes child),
                   PyPadding p,
                   PyHash (signature_hash_algorithm child)] of
             Inr u \<Rightarrow> True
           | Inl e \<Rightarrow> False))"

subsection \<open>Trust store: \<^verbatim>\<open>fetch_issuer_from_windows\<close>\<close>

text \<open>
  A system store is the list of PEM texts its \<^verbatim>\<open>itercerts()\<close> yields. The module
  variable \<^verbatim>\<open>wincertstore\<close> is \<open>None\<close> when the import failed or the platform is not
  Windows; otherwise it maps a store name to its store, or to \<open>None\<close> when opening the
  store raises.
\<close>

type_synonym cert_system_store = "bytes list"

type_synonym wincertstore = "(string \<Rightarrow> cert_system_store option) option"

text \<open>
  The inner loop over one store: an entry the library cannot decode is skipped
  (\<^verbatim>\<open>except: continue\<close>); the first entry whose subject equals the certificate's issuer
  and whose key verifies its signature is returned.
\<close>

fun scan_store :: "crypto_lib \<Rightarrow> certificate \<Rightarrow> cert_system_store \<Rightarrow> certificate option" where
  "scan_store L cert [] = None"
| "scan_store L cert (wc # wcs) =
     (case load_pem_x509_certificate L wc of
        None \<Rightarrow> scan_store L cert wcs
      | Some issuer' \<Rightarrow>
          (if subject issuer' = issuer cert \<and> verify_signature L cert issuer'
           then Some issuer'
           else scan_store L cert wcs))"

fun scan_stores :: "crypto_lib \<Rightarrow> (string \<Rightarrow> cert_system_store option) \<Rightarrow> certificate \<Rightarrow> string list \<Rightarrow> certificate option" where
  "scan_stores L W cert [] = None"
| "scan_stores L W cert (store_name # store_names) =
     (case W store_name of
        None \<Rightarrow> scan_stores L W cert store_names
      | Some store \<Rightarrow>
          (case scan_store L cert store of
             Some issuer' \<Rightarrow> Some issuer'
           | None \<Rightarrow> scan_stores L W cert store_names))"

definition fetch_issuer_from_windows :: "crypto_lib \<Rightarrow> wincertstore \<Rightarrow> certificate \<Rightarrow> certificate option" where
  "fetch_issuer_from_windows L wincertstore cert =
     (case wincertstore of
        None \<Rightarrow> None
      | Some W \<Rightarrow> scan_stores L W cert [''CA'', ''ROOT''])"

subsection \<open>Chain resolution: \<^verbatim>\<open>_build_chain_thread\<close>\<close>

text \<open>
  The \<^verbatim>\<open>while not self.is_self_signed(current)\<close> loop. It may run forever, so it is a
  partial function into \<open>option\<close>: \<open>None\<close> is the run that never leaves the loop,
  \<open>Some chain\<close> the chain at loop exit.
\<close>

partial_function (option) chain_loop ::
  "crypto_lib \<Rightarrow> wincertstore \<Rightarrow> certificate list \<Rightarrow> certificate \<Rightarrow> certificate list option" where
  "chain_loop L wincertstore chain current =
     (if is_self_signed current then Some chain
      else (case fetch_issuer_from_windows L wincertstore current of
              None \<Rightarrow> Some chain
            | Some issuer' \<Rightarrow>
                chain_loop L wincertstore
                  (if issuer' \<notin> set chain then chain @ [issuer'] else chain) issuer'))"

declare chain_loop.simps [code]

text \<open>
  Files are a map from path to content; reading a missing file raises, writing always
  succeeds. What \<^verbatim>\<open>os.path.join\<close> does with separators is not looked at: the joined
  path is the directory, a separator and the file name.
\<close>

type_synonym filesystem = "string \<rightharpoonup> bytes"

definition path_join :: "string \<Rightarrow> string \<Rightarrow> string" where
  "path_join directory file = directory @ ''/'' @ file"

text \<open>
  What the thread puts on the queue: \<^verbatim>\<open>("success", path)\<close> or \<^verbatim>\<open>("error", str(e))\<close>;
  the model keeps the exception instead of its text.
\<close>

datatype queue_item = Success string | Failure error

text \<open>
  \<^verbatim>\<open>_build_chain_thread\<close>, given the file system, \<^verbatim>\<open>self.cert_file\<close> and
  \<^verbatim>\<open>self.save_directory\<close>. The result is the queue item and the file system after the
  run, or \<open>None\<close> when the loop never ends.
\<close>

definition build_chain_thread ::
  "crypto_lib \<Rightarrow> wincertstore \<Rightarrow> filesystem \<Rightarrow> string \<Rightarrow> string
     \<Rightarrow> (queue_item \<times> filesystem) option" where
  "build_chain_thread L wincertstore fs cert_file save_directory =
     (case fs cert_file of
        None \<Rightarrow> Some (Failure (FileNotFoundError cert_file), fs)
      | Some data \<Rightarrow>
          (let certs = load_certificates_from_pem L data in
           if certs = [] then Some (Failure (ValueError ''No valid certificate found''), fs)
           else (case chain_loop L wincertstore certs (last certs) of
                   None \<Rightarrow> None
                 | Some chain \<Rightarrow>
                     (let path = path_join save_directory ''FullChain.cer''
                      in Some (Success path, fs(path \<mapsto> concat (map (public_bytes L) chain)))))))"

subsection \<open>Python strings: \<^verbatim>\<open>strip\<close> and \<^verbatim>\<open>encode\<close>\<close>

text \<open>
  \<^verbatim>\<open>str.strip()\<close> removes leading and trailing whitespace; below code point 256 the
  whitespace characters are 9 to 13, 28 to 32, 133 and 160.
\<close>

definition py_isspace :: "char \<Rightarrow> bool" where
  "py_isspace c =
     (let n = (of_char c :: nat)
      in (9 \<le> n \<and> n \<le> 13) \<or> (28 \<le> n \<and> n \<le> 32) \<or> n = 133 \<or> n = 160)"

definition py_strip :: "string \<Rightarrow> string" where
  "py_strip s = rev (dropWhile py_isspace (rev (dropWhile py_isspace s)))"

text \<open>\<^verbatim>\<open>str.encode()\<close> is UTF-8: one byte below 128, two bytes from 128 to 255.\<close>

definition utf8_char :: "char \<Rightarrow> bytes" where
  "utf8_char c =
     (let n = (of_char c :: nat)
      in if n < 128 then [c] else [char_of (192 + n div 64), char_of (128 + n mod 64)])"

definition str_encode :: "string \<Rightarrow> bytes" where
  "str_encode s = concat (map utf8_char s)"

subsection \<open>Container assembler: \<^verbatim>\<open>create_pfx_advanced\<close> and \<^verbatim>\<open>extract_key\<close>\<close>

text \<open>
  What a method shows before it returns: \<open>showerror msg\<close> is
  \<^verbatim>\<open>messagebox.showerror("Error", msg)\<close> of a guard, \<open>showerror_exception prefix e\<close> the
  dialog of an \<^verbatim>\<open>except Exception as e\<close> handler (the prefix followed by \<^verbatim>\<open>str(e)\<close>),
  \<open>showinfo msg\<close> is \<^verbatim>\<open>messagebox.showinfo("Success", msg)\<close>.
\<close>

datatype messagebox =
    showerror string
  | showerror_exception string error
  | showinfo string

definition read_file :: "filesystem \<Rightarrow> string \<Rightarrow> error + bytes" where
  "read_file fs path = (case fs path of None \<Rightarrow> Inl (FileNotFoundError path) | Some data \<Rightarrow> Inr data)"

text \<open>\<^verbatim>\<open>password.encode() if password else None\<close>.\<close>

definition password_or_none :: "string \<Rightarrow> bytes option" where
  "password_or_none password = (if password \<noteq> [] then Some (str_encode password) else None)"

text \<open>
  The \<^verbatim>\<open>try\<close> block of \<^verbatim>\<open>create_pfx_advanced\<close>: \<open>Inl\<close> is an exception on its way to the
  handler, \<open>Inr\<close> the dialog and the file system at a normal end. The call of
  \<^verbatim>\<open>archive_files\<close> that follows is left out (the archive feature is switched off).
\<close>

definition create_pfx_try ::
  "crypto_lib \<Rightarrow> filesystem \<Rightarrow> string \<Rightarrow> string \<Rightarrow> string \<Rightarrow> string \<Rightarrow> string
     \<Rightarrow> error + (messagebox \<times> filesystem)" where
  "create_pfx_try L fs save_directory chain_file key_file key_password pfx_password =
     (let pwd = password_or_none key_password in
      case read_file fs key_file of
        Inl e \<Rightarrow> Inl e
      | Inr key_data \<Rightarrow>
     (case load_pem_private_key L key_data pwd of
        Inl e \<Rightarrow> Inl e
      | Inr key \<Rightarrow>
     (case read_file fs chain_file of
        Inl e \<Rightarrow> Inl e
      | Inr chain_data \<Rightarrow>
     (let certs = load_certificates_from_pem L chain_data in
      if certs = [] then Inr (showerror ''No valid certificates found in chain file'', fs)
      else
     (case serialize_key_and_certificates L ''SSL Certificate'' key (hd certs)
             (if length certs > 1 then Some (tl certs) else None)
             (BestAvailableEncryption (str_encode pfx_password)) of
        Inl e \<Rightarrow> Inl e
      | Inr pfx_data \<Rightarrow>
          (let pfx_path = path_join save_directory ''Certificate.pfx''
           in Inr (showinfo (''PFX file created:'' @ [CHR 0x0A] @ pfx_path),
                   fs(pfx_path \<mapsto> pfx_data))))))))"

text \<open>
  \<^verbatim>\<open>create_pfx_advanced\<close>, given the file system, \<^verbatim>\<open>self.save_directory\<close> and the texts
  of the four entry widgets. The three guards come first, in the source's order.
\<close>

definition create_pfx_advanced ::
  "crypto_lib \<Rightarrow> filesystem \<Rightarrow> string \<Rightarrow> string \<Rightarrow> string \<Rightarrow> string \<Rightarrow> string
     \<Rightarrow> messagebox \<times> filesystem" where
  "create_pfx_advanced L fs save_directory pfx_chain_entry pfx_key_entry key_password pfx_password =
     (let chain_file = py_strip pfx_chain_entry;
          key_file = py_strip pfx_key_entry
      in if chain_file = [] then (showerror ''Please select a certificate chain file'', fs)
         else if key_file = [] then (showerror ''Please select a private key file'', fs)
         else if pfx_password = [] then (showerror ''Please enter a password for the PFX file'', fs)
         else (case create_pfx_try L fs save_directory chain_file key_file key_password pfx_password of
                 Inl e \<Rightarrow> (showerror_exception (''Failed to create PFX:'' @ [CHR 0x0A]) e, fs)
               | Inr r \<Rightarrow> r))"

text \<open>
  The part of \<^verbatim>\<open>extract_key\<close>'s \<^verbatim>\<open>try\<close> block that produces the PEM text of the key.
\<close>

definition extract_key_pem :: "crypto_lib \<Rightarrow> filesystem \<Rightarrow> string \<Rightarrow> string \<Rightarrow> error + bytes" where
  "extract_key_pem L fs pfx_path password =
     (case read_file fs pfx_path of
        Inl e \<Rightarrow> Inl e
      | Inr pfx_data \<Rightarrow>
     (case load_key_and_certificates L pfx_data (password_or_none password) of
        Inl e \<Rightarrow> Inl e
      | Inr (private_key, cert, cas) \<Rightarrow>
     (case private_key of
        None \<Rightarrow> Inl (ValueError ''No private key found in PFX file'')
      | Some key \<Rightarrow> Inr (private_bytes L key PEM PKCS8 NoEncryption))))"

text \<open>
  \<^verbatim>\<open>extract_key\<close>, given the file system, the texts of the two entry widgets and
  \<open>save_path\<close>, the answer of the save dialog (empty when the user cancels, and then
  nothing is shown or written).
\<close>

definition extract_key ::
  "crypto_lib \<Rightarrow> filesystem \<Rightarrow> string \<Rightarrow> string \<Rightarrow> string \<Rightarrow> messagebox option \<times> filesystem" where
  "extract_key L fs extract_pfx_entry password save_path =
     (let pfx_path = py_strip extract_pfx_entry
      in if pfx_path = [] then (Some (showerror ''Please select a PFX/P12 file''), fs)
         else (case extract_key_pem L fs pfx_path password of
                 Inl e \<Rightarrow>
                   (Some (showerror_exception (''Failed to extract private key:'' @ [CHR 0x0A]) e), fs)
               | Inr pem_key \<Rightarrow>
                   (if save_path \<noteq> []
                    then (Some (showinfo (''Private key extracted successfully to:'' @ [CHR 0x0A] @ save_path)),
                          fs(save_path \<mapsto> pem_key))
                    else (None, fs))))"

subsection \<open>Key and request generator: \<^verbatim>\<open>generate_csr_from_data\<close>\<close>

definition curve_map :: "string \<rightharpoonup> curve" where
  "curve_map = [''P-256'' \<mapsto> SECP256R1, ''P-384'' \<mapsto> SECP384R1, ''P-521'' \<mapsto> SECP521R1]"

text \<open>
  The first step, \<^verbatim>\<open># Generate key based on type\<close>: \<^verbatim>\<open>"RSA"\<close> calls the RSA generator with
  exponent 65537 and the given size; every other key type takes the \<^verbatim>\<open>else\<close> branch,
  where \<^verbatim>\<open>curve_map.get(ecc_curve, ec.SECP256R1())\<close> chooses the curve.
\<close>

definition generate_key :: "crypto_lib \<Rightarrow> string \<Rightarrow> int \<Rightarrow> string \<Rightarrow> error + private_key" where
  "generate_key L key_type key_size ecc_curve =
     (if key_type = ''RSA''
      then (case rsa_generate_private_key L 65537 key_size of
              Inl e \<Rightarrow> Inl e
            | Inr material \<Rightarrow> Inr (RSAPrivateKey 65537 key_size material))
      else (let curve = (case curve_map ecc_curve of Some c \<Rightarrow> c | None \<Rightarrow> SECP256R1)
            in Inr (EllipticCurvePrivateKey curve (ec_generate_private_key L curve))))"

definition NameAttribute :: "crypto_lib \<Rightarrow> name_oid \<Rightarrow> string \<Rightarrow> error + name_attribute" where
  "NameAttribute L oid val =
     (case name_attribute_check L oid val of Some e \<Rightarrow> Inl e | None \<Rightarrow> Inr (oid, val))"

text \<open>
  The \<^verbatim>\<open>for oid, val in [...]\<close> loop: \<open>val\<close> is \<^verbatim>\<open>data.get(key)\<close>, \<open>None\<close> for a missing
  key; \<^verbatim>\<open>if val:\<close> skips \<open>None\<close> and the empty string.
\<close>

fun collect_attrs :: "crypto_lib \<Rightarrow> (name_oid \<times> string option) list \<Rightarrow> name \<Rightarrow> error + name" where
  "collect_attrs L [] attrs = Inr attrs"
| "collect_attrs L ((oid, val) # rest) attrs =
     (case val of
        None \<Rightarrow> collect_attrs L rest attrs
      | Some v \<Rightarrow>
          (if v = [] then collect_attrs L rest attrs
           else (case NameAttribute L oid v of
                   Inl e \<Rightarrow> Inl e
                 | Inr a \<Rightarrow> collect_attrs L rest (attrs @ [a]))))"

definition dn_fields :: "(string \<rightharpoonup> string) \<Rightarrow> (name_oid \<times> string option) list" where
  "dn_fields data =
     [(COUNTRY_NAME, data ''Country''),
      (STATE_OR_PROVINCE_NAME, data ''State/Province''),
      (LOCALITY_NAME, data ''Locality''),
      (ORGANIZATION_NAME, data ''Organization''),
      (ORGANIZATIONAL_UNIT_NAME, data ''Organizational Unit''),
      (COMMON_NAME, data ''Common Name''),
      (EMAIL_ADDRESS, data ''Email Address (Optional)'')]"

text \<open>
  \<^verbatim>\<open>x509.Name(attrs or [x509.NameAttribute(NameOID.COMMON_NAME, "default")])\<close>: the
  default attribute is built only when \<open>attrs\<close> is empty.
\<close>

definition build_subject :: "crypto_lib \<Rightarrow> (string \<rightharpoonup> string) \<Rightarrow> error + name" where
  "build_subject L data =
     (case collect_attrs L (dn_fields data) [] of
        Inl e \<Rightarrow> Inl e
      | Inr attrs \<Rightarrow>
          (if attrs \<noteq> [] then Inr attrs
           else (case NameAttribute L COMMON_NAME ''default'' of
                   Inl e \<Rightarrow> Inl e
                 | Inr a \<Rightarrow> Inr [a])))"

definition make_DNSName :: "crypto_lib \<Rightarrow> string \<Rightarrow> error + general_name" where
  "make_DNSName L val = (case dns_name_check L val of Some e \<Rightarrow> Inl e | None \<Rightarrow> Inr (DNSName val))"

text \<open>
  The \<^verbatim>\<open>for s in sans\<close> loop. \<^verbatim>\<open>x509.DNSName\<close> is called inside the \<^verbatim>\<open>except ValueError\<close>
  handler, so what it raises leaves the loop.
\<close>

fun collect_sans :: "crypto_lib \<Rightarrow> string list \<Rightarrow> general_name list \<Rightarrow> error + general_name list" where
  "collect_sans L [] san_list = Inr san_list"
| "collect_sans L (s # rest) san_list =
     (case ip_address L (py_strip s) of
        Some ip \<Rightarrow> collect_sans L rest (san_list @ [IPAddress ip])
      | None \<Rightarrow>
          (case make_DNSName L (py_strip s) of
             Inl e \<Rightarrow> Inl e
           | Inr d \<Rightarrow> collect_sans L rest (san_list @ [d])))"

definition request_key_usage :: key_usage where
  "request_key_usage =
     \<lparr>digital_signature = True, content_commitment = False, key_encipherment = True,
      data_encipherment = False, key_agreement = False, key_cert_sign = False,
      crl_sign = False, encipher_only = False, decipher_only = False\<rparr>"

text \<open>The extensions the builder receives, in the order of the \<^verbatim>\<open>add_extension\<close> calls.\<close>

definition build_extensions :: "crypto_lib \<Rightarrow> string list \<Rightarrow> error + extension list" where
  "build_extensions L sans =
     (case (if sans \<noteq> []
            then (case collect_sans L sans [] of
                    Inl e \<Rightarrow> Inl e
                  | Inr san_list \<Rightarrow> Inr [(SubjectAlternativeName san_list, False)])
            else Inr []) of
        Inl e \<Rightarrow> Inl e
      | Inr exts \<Rightarrow>
          Inr (exts @ [(KeyUsage request_key_usage, True),
                       (ExtendedKeyUsage [SERVER_AUTH, CLIENT_AUTH], False)]))"

text \<open>
  \<^verbatim>\<open>generate_csr_from_data\<close>: \<open>Inl e\<close> is the exception the handler reports as
  \<^verbatim>\<open>CSR generation failed\<close>, \<open>Inr\<close> the key, the signed request and the file system with
  \<^verbatim>\<open>private_key.pem\<close> and \<^verbatim>\<open>csr.pem\<close> written. \<open>data\<close> is the dictionary of name fields.
  The success dialog, the \<^verbatim>\<open>chmod\<close> and the call of \<^verbatim>\<open>archive_files\<close> that follow the
  two writes are left out.
\<close>

definition generate_csr_from_data ::
  "crypto_lib \<Rightarrow> filesystem \<Rightarrow> string \<Rightarrow> (string \<rightharpoonup> string) \<Rightarrow> string list \<Rightarrow> string \<Rightarrow> int
     \<Rightarrow> string \<Rightarrow> string
     \<Rightarrow> error + (private_key \<times> certificate_signing_request \<times> filesystem)" where
  "generate_csr_from_data L fs save_directory data sans key_type key_size ecc_curve password =
     (case generate_key L key_type key_size ecc_curve of
        Inl e \<Rightarrow> Inl e
      | Inr key \<Rightarrow>
     (case build_subject L data of
        Inl e \<Rightarrow> Inl e
      | Inr subject' \<Rightarrow>
     (case build_extensions L sans of
        Inl e \<Rightarrow> Inl e
      | Inr exts \<Rightarrow>
     (case sign_request L key SHA256 subject' exts of
        Inl e \<Rightarrow> Inl e
      | Inr sig \<Rightarrow>
          (let csr = \<lparr>csr_subject = subject', csr_extensions = exts, csr_key = key,
                      csr_signature_hash = SHA256, csr_signature = sig\<rparr>;
               priv_path = path_join save_directory ''private_key.pem'';
               csr_path = path_join save_directory ''csr.pem'';
               enc = (if password \<noteq> [] then BestAvailableEncryption (str_encode password)
                      else NoEncryption);
               key_format = (if key_type = ''RSA'' then TraditionalOpenSSL else PKCS8);
               fs1 = fs(priv_path \<mapsto> private_bytes L key PEM key_format enc);
               fs2 = fs1(csr_path \<mapsto> csr_public_bytes L csr)
           in Inr (key, csr, fs2))))))"

subsection \<open>The caller of the generator: \<^verbatim>\<open>generate_csr_inline\<close>\<close>

text \<open>
  \<^verbatim>\<open>str.splitlines()\<close> cuts at line boundaries and yields no empty last line. Below
  code point 256 the boundaries are the characters 10 to 13, 28 to 30 and 133, and the
  pair 13, 10 counts as one boundary.
\<close>

definition is_linebreak :: "char \<Rightarrow> bool" where
  "is_linebreak c =
     (let n = (of_char c :: nat)
      in (10 \<le> n \<and> n \<le> 13) \<or> (28 \<le> n \<and> n \<le> 30) \<or> n = 133)"

function splitlines_from :: "string \<Rightarrow> string \<Rightarrow> string list" where
  "splitlines_from line [] = (if line = [] then [] else [rev line])"
| "splitlines_from line (c # cs) =
     (if is_linebreak c
      then rev line #
           splitlines_from []
             (if c = CHR 0x0D \<and> cs \<noteq> [] \<and> hd cs = CHR 0x0A then tl cs else cs)
      else splitlines_from (c # line) cs)"
  by pat_completeness auto
termination
  by (relation "measure (\<lambda>(line, text). length text)") auto

definition py_splitlines :: "string \<Rightarrow> string list" where
  "py_splitlines text = splitlines_from [] text"

text \<open>
  The alternative names the form hands over: the text of the widget is trimmed; if the
  placeholder is showing, the list is empty; otherwise it is
  \<^verbatim>\<open>[s.strip() for s in sans_raw.splitlines() if s.strip()]\<close>.
\<close>

definition form_sans :: "bool \<Rightarrow> string \<Rightarrow> string \<Rightarrow> string list" where
  "form_sans csr_placeholder_active csr_placeholder_text csr_san_text =
     (let sans_raw = py_strip csr_san_text
      in if csr_placeholder_active \<and> sans_raw = csr_placeholder_text then []
         else map py_strip (filter (\<lambda>s. py_strip s \<noteq> []) (py_splitlines sans_raw)))"

text \<open>
  \<^verbatim>\<open>generate_csr_inline\<close>, the only caller of \<^verbatim>\<open>generate_csr_from_data\<close>. The entry
  widgets are a map from field name to text; a widget variable that the object does
  not have (\<^verbatim>\<open>hasattr\<close> is false) is \<open>None\<close>; \<open>py_int\<close> is Python's \<^verbatim>\<open>int\<close> on a string,
  \<open>Inl\<close> where it raises. Every field text and the password are trimmed. \<open>Inl\<close> is an
  exception reported by either of the two handlers, that of this method or that of
  \<^verbatim>\<open>generate_csr_from_data\<close>.
\<close>

definition generate_csr_inline ::
  "crypto_lib \<Rightarrow> (string \<Rightarrow> error + int) \<Rightarrow> filesystem \<Rightarrow> string \<Rightarrow> (string \<rightharpoonup> string)
     \<Rightarrow> bool \<Rightarrow> string \<Rightarrow> string \<Rightarrow> string option \<Rightarrow> string option \<Rightarrow> string option
     \<Rightarrow> string option
     \<Rightarrow> error + (private_key \<times> certificate_signing_request \<times> filesystem)" where
  "generate_csr_inline L py_int fs save_directory csr_entries csr_placeholder_active
       csr_placeholder_text csr_san_text csr_key_type_var csr_key_size_var csr_ecc_curve_var
       csr_pass_entry =
     (let data = (\<lambda>key. map_option py_strip (csr_entries key));
          sans = form_sans csr_placeholder_active csr_placeholder_text csr_san_text;
          key_type = (case csr_key_type_var of Some v \<Rightarrow> v | None \<Rightarrow> ''RSA'')
      in case (case csr_key_size_var of Some v \<Rightarrow> py_int v | None \<Rightarrow> Inr 2048) of
           Inl e \<Rightarrow> Inl e
         | Inr key_size \<Rightarrow>
             (let ecc_curve = (case csr_ecc_curve_var of Some v \<Rightarrow> v | None \<Rightarrow> ''P-256'');
                  password = (case csr_pass_entry of Some v \<Rightarrow> py_strip v | None \<Rightarrow> [])
              in generate_csr_from_data L fs save_directory data sans key_type key_size
                   ecc_curve password))"

subsection \<open>Inputs of the PEM codec\<close>


subsection \<open>An in-memory library and trust store\<close>

text \<open>
  A small stand-in for the libraries, used to run the definitions on concrete inputs.
  It knows two certificates that name each other as issuer (a cross-certified pair), a
  self-signed root, a leaf issued by it, and an authority with an elliptic-curve key.
  Its PEM decoder skips any text before the first begin marker and accepts exactly the
  known bodies after it; its RSA check accepts the PKCS#1 v1.5 signature written for
  each key, its ECDSA check the signature written for key 5; its address parser reads
  dotted-quad IPv4 literals the way \<^verbatim>\<open>ipaddress\<close> does.
\<close>

definition cert_A :: certificate where
  "cert_A = \<lparr>subject = [(COMMON_NAME, ''A'')], issuer = [(COMMON_NAME, ''B'')],
     public_key = RSAPublicKey 1, signature = ''signed-by-2'',
     tbs_certificate_bytes = ''tbs-A'', signature_hash_algorithm = SHA256\<rparr>"

definition cert_B :: certificate where
  "cert_B = \<lparr>subject = [(COMMON_NAME, ''B'')], issuer = [(COMMON_NAME, ''A'')],
     public_key = RSAPublicKey 2, signature = ''signed-by-1'',
     tbs_certificate_bytes = ''tbs-B'', signature_hash_algorithm = SHA256\<rparr>"

definition cert_root :: certificate where
  "cert_root = \<lparr>subject = [(COMMON_NAME, ''Root'')], issuer = [(COMMON_NAME, ''Root'')],
     public_key = RSAPublicKey 3, signature = ''signed-by-3'',
     tbs_certificate_bytes = ''tbs-Root'', signature_hash_algorithm = SHA256\<rparr>"

definition cert_leaf :: certificate where
  "cert_leaf = \<lparr>subject = [(COMMON_NAME, ''example.com'')], issuer = [(COMMON_NAME, ''Root'')],
     public_key = RSAPublicKey 4, signature = ''signed-by-3'',
     tbs_certificate_bytes = ''tbs-leaf'', signature_hash_algorithm = SHA256\<rparr>"

text \<open>
  A certificate authority with an elliptic-curve key and a leaf it signed with ECDSA.
\<close>

definition cert_ec_ca :: certificate where
  "cert_ec_ca = \<lparr>subject = [(COMMON_NAME, ''EC CA'')], issuer = [(COMMON_NAME, ''Root'')],
     public_key = EllipticCurvePublicKey 5, signature = ''signed-by-3'',
     tbs_certificate_bytes = ''tbs-EC-CA'', signature_hash_algorithm = SHA256\<rparr>"

definition cert_ec_leaf :: certificate where
  "cert_ec_leaf = \<lparr>subject = [(COMMON_NAME, ''ec.example.com'')], issuer = [(COMMON_NAME, ''EC CA'')],
     public_key = EllipticCurvePublicKey 6, signature = ''ecdsa-by-5'',
     tbs_certificate_bytes = ''tbs-EC-leaf'', signature_hash_algorithm = SHA256\<rparr>"

definition pem_block :: "bytes \<Rightarrow> bytes" where
  "pem_block body =
     BEGIN_CERTIFICATE @ [CHR 0x0A] @ body @ [CHR 0x0A] @ END_CERTIFICATE @ [CHR 0x0A]"

fun after_first :: "bytes \<Rightarrow> bytes \<Rightarrow> bytes option" where
  "after_first sep [] = (if sep = [] then Some [] else None)"
| "after_first sep (c # cs) =
     (if prefix sep (c # cs) then Some (drop (length sep) (c # cs)) else after_first sep cs)"

definition demo_body :: "bytes \<Rightarrow> certificate option" where
  "demo_body rest =
     (if rest = [CHR 0x0A] @ ''QQ=='' @ [CHR 0x0A] @ END_CERTIFICATE @ [CHR 0x0A] then Some cert_A
      else if rest = [CHR 0x0A] @ ''Qg=='' @ [CHR 0x0A] @ END_CERTIFICATE @ [CHR 0x0A] then Some cert_B
      else if rest = [CHR 0x0A] @ ''Ug=='' @ [CHR 0x0A] @ END_CERTIFICATE @ [CHR 0x0A] then Some cert_root
      else if rest = [CHR 0x0A] @ ''TA=='' @ [CHR 0x0A] @ END_CERTIFICATE @ [CHR 0x0A] then Some cert_leaf
      else if rest = [CHR 0x0A] @ ''RUM='' @ [CHR 0x0A] @ END_CERTIFICATE @ [CHR 0x0A] then Some cert_ec_ca
      else None)"

definition demo_load_pem :: "bytes \<Rightarrow> certificate option" where
  "demo_load_pem data =
     (case after_first BEGIN_CERTIFICATE data of
        None \<Rightarrow> None
      | Some rest \<Rightarrow> demo_body rest)"

definition demo_public_bytes :: "certificate \<Rightarrow> bytes" where
  "demo_public_bytes c =
     (if c = cert_A then pem_block ''QQ==''
      else if c = cert_B then pem_block ''Qg==''
      else if c = cert_root then pem_block ''Ug==''
      else if c = cert_leaf then pem_block ''TA==''
      else if c = cert_ec_ca then pem_block ''RUM=''
      else pem_block [])"

definition demo_rsa_verify :: "nat \<Rightarrow> bytes \<Rightarrow> bytes \<Rightarrow> padding \<Rightarrow> hash_algorithm \<Rightarrow> bool" where
  "demo_rsa_verify k s d p h =
     (p = PKCS1v15 \<and>
      ((k = 1 \<and> s = ''signed-by-1'') \<or> (k = 2 \<and> s = ''signed-by-2'') \<or>
       (k = 3 \<and> s = ''signed-by-3'')))"

definition demo_key :: private_key where
  "demo_key = RSAPrivateKey 65537 2048 7"

definition demo_load_pem_private_key :: "bytes \<Rightarrow> bytes option \<Rightarrow> error + private_key" where
  "demo_load_pem_private_key data password =
     (if data = ''demo key'' \<and> password = None then Inr demo_key
      else Inl (ValueError ''Could not deserialize key data''))"

definition demo_private_bytes ::
  "private_key \<Rightarrow> encoding \<Rightarrow> private_format \<Rightarrow> key_encryption \<Rightarrow> bytes" where
  "demo_private_bytes key enc fmt encryption =
     (case key of RSAPrivateKey e n m \<Rightarrow> ''rsa key '' | EllipticCurvePrivateKey c m \<Rightarrow> ''ec key '')
     @ (case fmt of TraditionalOpenSSL \<Rightarrow> ''traditional '' | PKCS8 \<Rightarrow> ''pkcs8 '')
     @ (case encryption of NoEncryption \<Rightarrow> ''plain'' | BestAvailableEncryption pw \<Rightarrow> ''encrypted'')"

definition demo_serialize ::
  "bytes \<Rightarrow> private_key \<Rightarrow> certificate \<Rightarrow> certificate list option \<Rightarrow> key_encryption
     \<Rightarrow> error + bytes" where
  "demo_serialize name' key cert cas encryption =
     (if key \<noteq> demo_key \<or> cert \<noteq> cert_leaf then Inl UnsupportedAlgorithm
      else (case encryption of
              NoEncryption \<Rightarrow> Inr ''unprotected container''
            | BestAvailableEncryption pw \<Rightarrow> Inr (''container under '' @ pw)))"

text \<open>
  The stand-in reader treats the absent and the empty password alike: handed either,
  it opens the container without password and the container under the empty password.
\<close>

definition demo_load_key_and_certificates ::
  "bytes \<Rightarrow> bytes option
     \<Rightarrow> error + (private_key option \<times> certificate option \<times> certificate list)" where
  "demo_load_key_and_certificates data password =
     (case password of
        None \<Rightarrow>
          (if data = ''unprotected container'' \<or> data = ''container under ''
           then Inr (Some demo_key, Some cert_leaf, [])
           else Inl (ValueError ''Invalid password or PKCS12 data''))
      | Some pw \<Rightarrow>
          (if data = ''container under '' @ pw \<or> (pw = [] \<and> data = ''unprotected container'')
           then Inr (Some demo_key, Some cert_leaf, [])
           else Inl (ValueError ''Invalid password or PKCS12 data'')))"

definition demo_rsa_generate :: "int \<Rightarrow> int \<Rightarrow> error + nat" where
  "demo_rsa_generate public_exponent key_size =
     (if (public_exponent = 3 \<or> public_exponent = 65537) \<and> 1024 \<le> key_size then Inr 7
      else Inl (ValueError ''key_size must be at least 1024-bits.''))"

definition demo_name_attribute_check :: "name_oid \<Rightarrow> string \<Rightarrow> error option" where
  "demo_name_attribute_check oid val =
     (if oid = COUNTRY_NAME \<and> length val \<noteq> 2
      then Some (ValueError ''Country name must be a 2 character country code'')
      else None)"

definition demo_dns_name_check :: "string \<Rightarrow> error option" where
  "demo_dns_name_check val =
     (if list_all (\<lambda>c. (of_char c :: nat) < 128) val then None
      else Some (ValueError ''DNSName values should be passed as an A-label string.''))"

definition is_digit :: "char \<Rightarrow> bool" where
  "is_digit c = (48 \<le> (of_char c :: nat) \<and> (of_char c :: nat) \<le> 57)"

definition decimal :: "string \<Rightarrow> int" where
  "decimal s = fold (\<lambda>c n. 10 * n + ((of_char c :: int) - 48)) s 0"

definition parse_octet :: "string \<Rightarrow> int option" where
  "parse_octet octet_str =
     (if octet_str = [] then None
      else if \<not> list_all is_digit octet_str then None
      else if length octet_str > 3 then None
      else if octet_str \<noteq> ''0'' \<and> hd octet_str = CHR ''0'' then None
      else if decimal octet_str > 255 then None
      else Some (decimal octet_str))"

definition demo_ip_address :: "string \<Rightarrow> ip_address option" where
  "demo_ip_address ip_str =
     (case map parse_octet (bytes_split ip_str ''.'') of
        [Some a, Some b, Some c, Some d] \<Rightarrow> Some (IPv4Address (((a * 256 + b) * 256 + c) * 256 + d))
      | _ \<Rightarrow> (if ip_str = ''::1'' then Some (IPv6Address 1) else None))"

definition demo_lib :: crypto_lib where
  "demo_lib = \<lparr>load_pem_x509_certificate = demo_load_pem,
     public_bytes = demo_public_bytes,
     rsa_verify = demo_rsa_verify,
     ecdsa_verify = (\<lambda>k s d h. s = ''ecdsa-by-5'' \<and> k = 5),
     load_pem_private_key = demo_load_pem_private_key,
     private_bytes = demo_private_bytes,
     serialize_key_and_certificates = demo_serialize,
     load_key_and_certificates = demo_load_key_and_certificates,
     rsa_generate_private_key = demo_rsa_generate,
     ec_generate_private_key = (\<lambda>curve. 9),
     name_attribute_check = demo_name_attribute_check,
     dns_name_check = demo_dns_name_check,
     ip_address = demo_ip_address,
     sign_request = (\<lambda>key h subject' exts. Inr ''request signature''),
     csr_public_bytes = (\<lambda>csr. ''request in PEM'')\<rparr>"

text \<open>A Windows store whose CA class holds the cross-certified pair.\<close>

definition cross_store :: wincertstore where
  "cross_store =
     Some (\<lambda>store_name.
       if store_name = ''CA'' then Some [pem_block ''QQ=='', pem_block ''Qg=='']
       else if store_name = ''ROOT'' then Some [pem_block ''Ug=='']
       else None)"

text \<open>A Windows store whose CA class holds the elliptic-curve authority.\<close>

definition ec_store :: wincertstore where
  "ec_store =
     Some (\<lambda>store_name.
       if store_name = ''CA'' then Some [pem_block ''RUM='']
       else if store_name = ''ROOT'' then Some [pem_block ''Ug=='']
       else None)"



text \<open>The text of the names widget: two names, one on each line.\<close>

definition demo_san_text :: string where
  "demo_san_text = ''www.example.com'' @ [CHR 0x0A] @ ''203.0.113.5'' @ [CHR 0x0A]"

text \<open>Python's \<^verbatim>\<open>int\<close> on a string of decimal digits; the stand-in rejects everything else.\<close>

definition demo_int :: "string \<Rightarrow> error + int" where
  "demo_int s =
     (if s \<noteq> [] \<and> list_all is_digit s then Inr (decimal s)
      else Inl (ValueError ''invalid literal for int() with base 10''))"

text \<open>
  A reader that differs from the stand-in's only when it is handed the empty password
  \<^verbatim>\<open>b""\<close>: there it finds no key.
\<close>

definition demo_load_strict ::
  "bytes \<Rightarrow> bytes option
     \<Rightarrow> error + (private_key option \<times> certificate option \<times> certificate list)" where
  "demo_load_strict data password =
     (if password = Some [] then Inr (None, None, [])
      else demo_load_key_and_certificates data password)"

subsection \<open>What the statements below refer to\<close>

text \<open>
  The law of the PKCS#12 library the round trip rests on: what the writer produced
  under a password, the reader opens with the same password and finds the same key.
\<close>

definition reader_inverts_writer :: "crypto_lib \<Rightarrow> bool" where
  "reader_inverts_writer L =
     (\<forall>name' key cert cas pw data.
        serialize_key_and_certificates L name' key cert cas (BestAvailableEncryption pw) = Inr data
        \<longrightarrow> (\<exists>cert' cas'. load_key_and_certificates L data (Some pw) = Inr (Some key, cert', cas')))"

text \<open>
  The subject as the specification words it: the fields with a non-empty value, in the
  order of the field list, each as one attribute.
\<close>

definition present_fields :: "(string \<rightharpoonup> string) \<Rightarrow> name" where
  "present_fields data =
     concat (map (\<lambda>(oid, val). case val of None \<Rightarrow> [] | Some v \<Rightarrow> if v = [] then [] else [(oid, v)])
               (dn_fields data))"

text \<open>
  The entry of one alternative name as the specification words it: an address if the
  string parses as one, a DNS name of the string otherwise.
\<close>

definition classify_san :: "crypto_lib \<Rightarrow> string \<Rightarrow> general_name" where
  "classify_san L s =
     (case ip_address L s of
        Some ip \<Rightarrow> IPAddress ip
      | None \<Rightarrow> DNSName s)"

text \<open>
  The entry of one alternative name as the source computes it: the string is trimmed,
  then it is an address if the trimmed string parses as one, and a DNS name of the
  trimmed string otherwise.
\<close>

definition san_entry :: "crypto_lib \<Rightarrow> string \<Rightarrow> general_name" where
  "san_entry L s =
     (case ip_address L (py_strip s) of
        Some ip \<Rightarrow> IPAddress ip
      | None \<Rightarrow> DNSName (py_strip s))"

section \<open>Properties\<close>

subsection \<open>Chain resolution\<close>

text \<open>
  A set of certificates is a trap when none of them is self-signed and the issuer
  lookup of each lands in the set again. A run whose current certificate is in a trap
  never leaves the loop: by fixpoint induction no result \<open>Some chain\<close> is possible.
\<close>

lemma chain_loop_no_result_in_trap:
  assumes "chain_loop L W chain current = Some result"
  shows "\<not> (\<exists>S. current \<in> S \<and>
            (\<forall>c\<in>S. \<not> is_self_signed c \<and> (\<exists>c'\<in>S. fetch_issuer_from_windows L W c = Some c')))"
proof (rule chain_loop.raw_induct[where P = "\<lambda>L W chain current result.
    \<not> (\<exists>S. current \<in> S \<and>
          (\<forall>c\<in>S. \<not> is_self_signed c \<and> (\<exists>c'\<in>S. fetch_issuer_from_windows L W c = Some c')))",
    OF _ assms])
  fix loop :: "crypto_lib \<Rightarrow> wincertstore \<Rightarrow> certificate list \<Rightarrow> certificate \<Rightarrow> certificate list option"
  fix L W chain current result
  assume IH: "\<And>L W chain current result. loop L W chain current = Some result \<Longrightarrow>
    \<not> (\<exists>S. current \<in> S \<and>
          (\<forall>c\<in>S. \<not> is_self_signed c \<and> (\<exists>c'\<in>S. fetch_issuer_from_windows L W c = Some c')))"
  assume body: "(if is_self_signed current then Some chain
      else case fetch_issuer_from_windows L W current of
             None \<Rightarrow> Some chain
           | Some issuer' \<Rightarrow>
               loop L W (if issuer' \<notin> set chain then chain @ [issuer'] else chain) issuer')
      = Some result"
  show "\<not> (\<exists>S. current \<in> S \<and>
          (\<forall>c\<in>S. \<not> is_self_signed c \<and> (\<exists>c'\<in>S. fetch_issuer_from_windows L W c = Some c')))"
  proof
    assume "\<exists>S. current \<in> S \<and>
          (\<forall>c\<in>S. \<not> is_self_signed c \<and> (\<exists>c'\<in>S. fetch_issuer_from_windows L W c = Some c'))"
    then obtain S where S: "current \<in> S"
      "\<forall>c\<in>S. \<not> is_self_signed c \<and> (\<exists>c'\<in>S. fetch_issuer_from_windows L W c = Some c')"
      by blast
    then obtain c' where c': "c' \<in> S" "fetch_issuer_from_windows L W current = Some c'"
      "\<not> is_self_signed current"
      by blast
    with body have "loop L W (if c' \<notin> set chain then chain @ [c'] else chain) c' = Some result"
      by simp
    from IH[OF this] S(2) c'(1) show False by blast
  qed
qed

text \<open>The loop only appends: the chain it starts from is a prefix of the chain it returns.\<close>

lemma chain_loop_prefix:
  assumes "chain_loop L W chain current = Some result"
  shows "prefix chain result"
proof (rule chain_loop.raw_induct[where P = "\<lambda>L W chain current result. prefix chain result",
    OF _ assms])
  fix loop :: "crypto_lib \<Rightarrow> wincertstore \<Rightarrow> certificate list \<Rightarrow> certificate \<Rightarrow> certificate list option"
  fix L W chain current result
  assume IH: "\<And>L W chain current result. loop L W chain current = Some result \<Longrightarrow> prefix chain result"
  assume body: "(if is_self_signed current then Some chain
      else case fetch_issuer_from_windows L W current of
             None \<Rightarrow> Some chain
           | Some issuer' \<Rightarrow>
               loop L W (if issuer' \<notin> set chain then chain @ [issuer'] else chain) issuer')
      = Some result"
  show "prefix chain result"
  proof (cases "is_self_signed current")
    case True
    with body show ?thesis by simp
  next
    case False
    show ?thesis
    proof (cases "fetch_issuer_from_windows L W current")
      case None
      with False body show ?thesis by simp
    next
      case (Some c')
      with False body
      have "loop L W (if c' \<notin> set chain then chain @ [c'] else chain) c' = Some result"
        by simp
      from IH[OF this] show ?thesis
        by (auto split: if_splits dest: append_prefixD)
    qed
  qed
qed

lemma demo_fetch_A: "fetch_issuer_from_windows demo_lib cross_store cert_A = Some cert_B"
  by code_simp

lemma demo_fetch_B: "fetch_issuer_from_windows demo_lib cross_store cert_B = Some cert_A"
  by code_simp

lemma demo_not_self_signed: "\<not> is_self_signed cert_A" "\<not> is_self_signed cert_B"
  by code_simp+

lemma demo_load_A: "load_certificates_from_pem demo_lib (pem_block ''QQ=='') = [cert_A]"
  by code_simp

text \<open>
  C1 (the code does not do what the claim says). The claim: when the issuer lookup is
  cyclic (A's issuer is B, B's issuer is A, neither self-signed) the run ends without
  looping. In the source the test \<^verbatim>\<open>if issuer not in chain\<close> only guards the
  \<^verbatim>\<open>append\<close>; \<^verbatim>\<open>current = issuer\<close> follows in either case and the \<^verbatim>\<open>while\<close> goes on.
  So for every library and store with such a pair, and from every chain, the loop
  started at A has no result: it runs forever.
\<close>

theorem chain_loop_cycle_diverges:
  assumes "\<not> is_self_signed a" and "\<not> is_self_signed b"
    and "fetch_issuer_from_windows L W a = Some b"
    and "fetch_issuer_from_windows L W b = Some a"
  shows "chain_loop L W chain a = None"
proof (rule ccontr)
  assume "chain_loop L W chain a \<noteq> None"
  then obtain r where "chain_loop L W chain a = Some r" by blast
  from chain_loop_no_result_in_trap[OF this]
  have "\<not> (\<forall>c\<in>{a, b}. \<not> is_self_signed c \<and> (\<exists>c'\<in>{a, b}. fetch_issuer_from_windows L W c = Some c'))"
    by blast
  with assms show False by simp
qed

text \<open>
  The run on the cross-certified pair: the leaf file holds A, the CA store holds A and
  B. \<^verbatim>\<open>_build_chain_thread\<close> never puts anything on the queue.
\<close>

theorem chain_loop_cycle_diverges_witness:
  "\<not> is_self_signed cert_A \<and> \<not> is_self_signed cert_B \<and>
   fetch_issuer_from_windows demo_lib cross_store cert_A = Some cert_B \<and>
   fetch_issuer_from_windows demo_lib cross_store cert_B = Some cert_A \<and>
   build_chain_thread demo_lib cross_store [''leaf.cer'' \<mapsto> pem_block ''QQ==''] ''leaf.cer'' ''out''
     = None"
  using chain_loop_cycle_diverges[OF demo_not_self_signed demo_fetch_A demo_fetch_B, of "[cert_A]"]
  by (simp add: build_chain_thread_def demo_load_A demo_not_self_signed demo_fetch_A demo_fetch_B)

text \<open>
  C2 (the code does not do what the claim says). The claim: for an issuer with an
  elliptic-curve key, \<^verbatim>\<open>verify_signature\<close> runs ECDSA and returns true on a valid
  signature. For every non-RSA key the source builds a PSS padding argument through
  \<^verbatim>\<open>padding.PSS.MGF1\<close>, which does not exist, and would hand four positional arguments
  to \<^verbatim>\<open>EllipticCurvePublicKey.verify\<close>, which takes three; the exception is swallowed by
  the bare \<^verbatim>\<open>except\<close>. So for every library, child and issuer with an elliptic-curve
  key the answer is \<open>False\<close>, whatever the ECDSA check would say; the same holds for the
  other non-RSA keys. Only for an RSA key is a check made: the PKCS#1 v1.5 check with
  the hash the child declares.
\<close>

theorem verify_signature_elliptic_curve_false:
  "verify_signature L child (parent\<lparr>public_key := EllipticCurvePublicKey k\<rparr>) = False \<and>
   verify_signature L child (parent\<lparr>public_key := OtherPublicKey k\<rparr>) = False \<and>
   verify_signature L child (parent\<lparr>public_key := RSAPublicKey k\<rparr>) =
     rsa_verify L k (signature child) (tbs_certificate_bytes child) PKCS1v15
       (signature_hash_algorithm child)"
proof (intro conjI)
  show "verify_signature L child (parent\<lparr>public_key := EllipticCurvePublicKey k\<rparr>) = False"
    by (simp add: verify_signature_def padding_argument_def public_key_verify_def is_rsa_def)
  show "verify_signature L child (parent\<lparr>public_key := OtherPublicKey k\<rparr>) = False"
    by (simp add: verify_signature_def padding_argument_def public_key_verify_def is_rsa_def)
  show "verify_signature L child (parent\<lparr>public_key := RSAPublicKey k\<rparr>) =
     rsa_verify L k (signature child) (tbs_certificate_bytes child) PKCS1v15
       (signature_hash_algorithm child)"
    by (simp add: verify_signature_def padding_argument_def public_key_verify_def is_rsa_def)
qed

text \<open>
  The leaf carries a signature that the ECDSA check of the issuer's key accepts, the
  issuer is in the CA store under the right subject, and still the verifier says no and
  the issuer lookup finds nothing.
\<close>

theorem verify_signature_elliptic_curve_false_witness:
  "public_key cert_ec_ca = EllipticCurvePublicKey 5 \<and>
   subject cert_ec_ca = issuer cert_ec_leaf \<and>
   ecdsa_verify demo_lib 5 (signature cert_ec_leaf) (tbs_certificate_bytes cert_ec_leaf)
     (signature_hash_algorithm cert_ec_leaf) \<and>
   \<not> verify_signature demo_lib cert_ec_leaf cert_ec_ca \<and>
   fetch_issuer_from_windows demo_lib ec_store cert_ec_leaf = None"
proof -
  have same: "cert_ec_ca\<lparr>public_key := EllipticCurvePublicKey 5\<rparr> = cert_ec_ca"
    by (simp add: cert_ec_ca_def)
  have no: "\<not> verify_signature demo_lib cert_ec_leaf cert_ec_ca"
    using verify_signature_elliptic_curve_false[where L = demo_lib and child = cert_ec_leaf
        and parent = cert_ec_ca and k = 5]
    by (simp add: same)
  have facts: "public_key cert_ec_ca = EllipticCurvePublicKey 5"
    "subject cert_ec_ca = issuer cert_ec_leaf"
    "ecdsa_verify demo_lib 5 (signature cert_ec_leaf) (tbs_certificate_bytes cert_ec_leaf)
       (signature_hash_algorithm cert_ec_leaf)"
    by (simp_all add: cert_ec_ca_def cert_ec_leaf_def demo_lib_def)
  have "fetch_issuer_from_windows demo_lib ec_store cert_ec_leaf = None"
    by code_simp
  with no facts show ?thesis by simp
qed

text \<open>
  C9. With the leaf file readable, the thread reports a failure exactly when decoding
  yields no certificate, and the failure is then \<^verbatim>\<open>ValueError("No valid certificate found")\<close>
  with nothing written. Otherwise the loop starts from the whole decoded list with
  its last element as current certificate, and every chain the loop returns begins
  with the whole decoded list.
\<close>

theorem build_chain_thread_start:
  assumes "fs cert_file = Some data"
  shows "((\<exists>e fs'. build_chain_thread L W fs cert_file dir = Some (Failure e, fs'))
            \<longleftrightarrow> load_certificates_from_pem L data = []) \<and>
         (load_certificates_from_pem L data = [] \<longrightarrow>
            build_chain_thread L W fs cert_file dir =
              Some (Failure (ValueError ''No valid certificate found''), fs)) \<and>
         (load_certificates_from_pem L data \<noteq> [] \<longrightarrow>
            build_chain_thread L W fs cert_file dir =
              map_option
                (\<lambda>chain. (Success (path_join dir ''FullChain.cer''),
                           fs(path_join dir ''FullChain.cer'' \<mapsto> concat (map (public_bytes L) chain))))
                (chain_loop L W (load_certificates_from_pem L data)
                   (last (load_certificates_from_pem L data)))) \<and>
         (\<forall>chain. chain_loop L W (load_certificates_from_pem L data)
                     (last (load_certificates_from_pem L data)) = Some chain
            \<longrightarrow> prefix (load_certificates_from_pem L data) chain)"
proof (intro conjI)
  show "(\<exists>e fs'. build_chain_thread L W fs cert_file dir = Some (Failure e, fs'))
          \<longleftrightarrow> load_certificates_from_pem L data = []"
    using assms by (auto simp: build_chain_thread_def Let_def split: option.splits)
  show "load_certificates_from_pem L data = [] \<longrightarrow>
          build_chain_thread L W fs cert_file dir =
            Some (Failure (ValueError ''No valid certificate found''), fs)"
    using assms by (simp add: build_chain_thread_def)
  show "load_certificates_from_pem L data \<noteq> [] \<longrightarrow>
          build_chain_thread L W fs cert_file dir =
            map_option
              (\<lambda>chain. (Success (path_join dir ''FullChain.cer''),
                         fs(path_join dir ''FullChain.cer'' \<mapsto> concat (map (public_bytes L) chain))))
              (chain_loop L W (load_certificates_from_pem L data)
                 (last (load_certificates_from_pem L data)))"
    using assms by (simp add: build_chain_thread_def Let_def split: option.splits)
  show "\<forall>chain. chain_loop L W (load_certificates_from_pem L data)
                   (last (load_certificates_from_pem L data)) = Some chain
          \<longrightarrow> prefix (load_certificates_from_pem L data) chain"
    using chain_loop_prefix by blast
qed

lemma demo_load_leaf_root:
  "load_certificates_from_pem demo_lib (pem_block ''TA=='' @ pem_block ''Ug=='') = [cert_leaf, cert_root]"
  by code_simp

lemma demo_load_text: "load_certificates_from_pem demo_lib ''not a certificate'' = []"
  by code_simp

lemma demo_root_self_signed: "is_self_signed cert_root"
  by code_simp

text \<open>
  Two runs: a leaf file that already holds the leaf and its root is kept whole, and a
  file without a certificate fails.
\<close>

theorem build_chain_thread_start_witness:
  "build_chain_thread demo_lib None [''leaf.cer'' \<mapsto> pem_block ''TA=='' @ pem_block ''Ug==''] ''leaf.cer'' ''out''
     = Some (Success ''out/FullChain.cer'',
             [''leaf.cer'' \<mapsto> pem_block ''TA=='' @ pem_block ''Ug=='',
              ''out/FullChain.cer'' \<mapsto> pem_block ''TA=='' @ pem_block ''Ug=='']) \<and>
   build_chain_thread demo_lib None [''leaf.cer'' \<mapsto> ''not a certificate''] ''leaf.cer'' ''out''
     = Some (Failure (ValueError ''No valid certificate found''), [''leaf.cer'' \<mapsto> ''not a certificate''])"
proof -
  have loop: "chain_loop demo_lib None [cert_leaf, cert_root] cert_root = Some [cert_leaf, cert_root]"
    by (subst chain_loop.simps) (simp add: demo_root_self_signed)
  have bytes: "public_bytes demo_lib cert_leaf = pem_block ''TA==''"
    "public_bytes demo_lib cert_root = pem_block ''Ug==''"
    by (simp_all add: demo_lib_def demo_public_bytes_def cert_leaf_def cert_root_def cert_A_def cert_B_def)
  have 1: "build_chain_thread demo_lib None [''leaf.cer'' \<mapsto> pem_block ''TA=='' @ pem_block ''Ug==''] ''leaf.cer'' ''out''
     = Some (Success ''out/FullChain.cer'',
             [''leaf.cer'' \<mapsto> pem_block ''TA=='' @ pem_block ''Ug=='',
              ''out/FullChain.cer'' \<mapsto> pem_block ''TA=='' @ pem_block ''Ug==''])"
    using build_chain_thread_start[of "[''leaf.cer'' \<mapsto> pem_block ''TA=='' @ pem_block ''Ug=='']"
        "''leaf.cer''" "pem_block ''TA=='' @ pem_block ''Ug==''" demo_lib None "''out''"]
    by (simp add: demo_load_leaf_root loop bytes path_join_def)
  have 2: "build_chain_thread demo_lib None [''leaf.cer'' \<mapsto> ''not a certificate''] ''leaf.cer'' ''out''
     = Some (Failure (ValueError ''No valid certificate found''), [''leaf.cer'' \<mapsto> ''not a certificate''])"
    using build_chain_thread_start[of "[''leaf.cer'' \<mapsto> ''not a certificate'']"
        "''leaf.cer''" "''not a certificate''" demo_lib None "''out''"]
    by (simp add: demo_load_text)
  from 1 2 show ?thesis by simp
qed

text \<open>
  A run that extends the chain: the leaf file holds the leaf alone, the root is found
  in the ROOT store, and the chain written is leaf, then root.
\<close>

lemma build_chain_thread_leaf_then_root:
  "build_chain_thread demo_lib cross_store [''leaf.cer'' \<mapsto> pem_block ''TA==''] ''leaf.cer'' ''out''
     = Some (Success ''out/FullChain.cer'',
             [''leaf.cer'' \<mapsto> pem_block ''TA=='',
              ''out/FullChain.cer'' \<mapsto> pem_block ''TA=='' @ pem_block ''Ug==''])"
proof -
  have load: "load_certificates_from_pem demo_lib (pem_block ''TA=='') = [cert_leaf]"
    by code_simp
  have step: "\<not> is_self_signed cert_leaf"
    "fetch_issuer_from_windows demo_lib cross_store cert_leaf = Some cert_root"
    "cert_root \<noteq> cert_leaf"
    by code_simp+
  have "chain_loop demo_lib cross_store [cert_leaf, cert_root] cert_root = Some [cert_leaf, cert_root]"
    by (subst chain_loop.simps) (simp add: demo_root_self_signed)
  then have loop: "chain_loop demo_lib cross_store [cert_leaf] cert_leaf = Some [cert_leaf, cert_root]"
    by (subst chain_loop.simps) (simp add: step)
  have bytes: "public_bytes demo_lib cert_leaf = pem_block ''TA==''"
    "public_bytes demo_lib cert_root = pem_block ''Ug==''"
    by (simp_all add: demo_lib_def demo_public_bytes_def cert_leaf_def cert_root_def cert_A_def cert_B_def)
  show ?thesis
    by (simp add: build_chain_thread_def load loop bytes path_join_def Let_def)
qed

subsection \<open>PEM codec\<close>

















text \<open>
  With the stand-in decoder, which like the library rejects a block whose body holds
  a second begin line, a truncated block in front of a valid one loses both.
\<close>

lemma load_certificates_from_pem_truncated_block:
  "load_certificates_from_pem demo_lib
     (BEGIN_CERTIFICATE @ [CHR 0x0A] @ ''MIIB'' @ [CHR 0x0A] @ pem_block ''TA=='') = []"
  by code_simp

subsection \<open>Container assembler\<close>

lemma utf8_char_nonempty: "utf8_char c \<noteq> []"
  by (simp add: utf8_char_def Let_def)

lemma str_encode_empty_iff: "str_encode s = [] \<longleftrightarrow> s = []"
  by (cases s) (simp_all add: str_encode_def utf8_char_nonempty)

lemma password_or_none_not_empty: "password_or_none password \<noteq> Some []"
  by (simp add: password_or_none_def str_encode_empty_iff)

text \<open>
  The two normal ends of the \<^verbatim>\<open>try\<close> block: the chain file held no certificate and
  nothing was written, or every step succeeded and the container was written.
\<close>

lemma create_pfx_try_cases:
  assumes "create_pfx_try L fs dir chain_file key_file kp pw = Inr (m, fs')"
  shows "(m = showerror ''No valid certificates found in chain file'' \<and> fs' = fs) \<or>
         (\<exists>key_data key chain_data pfx_data.
            fs key_file = Some key_data \<and>
            load_pem_private_key L key_data (password_or_none kp) = Inr key \<and>
            fs chain_file = Some chain_data \<and>
            load_certificates_from_pem L chain_data \<noteq> [] \<and>
            serialize_key_and_certificates L ''SSL Certificate'' key
              (hd (load_certificates_from_pem L chain_data))
              (if length (load_certificates_from_pem L chain_data) > 1
               then Some (tl (load_certificates_from_pem L chain_data)) else None)
              (BestAvailableEncryption (str_encode pw)) = Inr pfx_data \<and>
            m = showinfo (''PFX file created:'' @ [CHR 0x0A] @ path_join dir ''Certificate.pfx'') \<and>
            fs' = fs(path_join dir ''Certificate.pfx'' \<mapsto> pfx_data))"
  using assms
  by (auto simp: create_pfx_try_def read_file_def Let_def split: option.splits sum.splits if_splits)

lemma create_pfx_advanced_success:
  assumes "fst (create_pfx_advanced L fs dir chain_entry key_entry kp pw) = showinfo msg
           \<or> snd (create_pfx_advanced L fs dir chain_entry key_entry kp pw) \<noteq> fs"
  shows "pw \<noteq> [] \<and>
         (\<exists>key_data key chain_data pfx_data.
            fs (py_strip key_entry) = Some key_data \<and>
            load_pem_private_key L key_data (password_or_none kp) = Inr key \<and>
            fs (py_strip chain_entry) = Some chain_data \<and>
            load_certificates_from_pem L chain_data \<noteq> [] \<and>
            serialize_key_and_certificates L ''SSL Certificate'' key
              (hd (load_certificates_from_pem L chain_data))
              (if length (load_certificates_from_pem L chain_data) > 1
               then Some (tl (load_certificates_from_pem L chain_data)) else None)
              (BestAvailableEncryption (str_encode pw)) = Inr pfx_data \<and>
            create_pfx_advanced L fs dir chain_entry key_entry kp pw =
              (showinfo (''PFX file created:'' @ [CHR 0x0A] @ path_join dir ''Certificate.pfx''),
               fs(path_join dir ''Certificate.pfx'' \<mapsto> pfx_data)))"
proof -
  from assms have pw: "pw \<noteq> []" and c: "py_strip chain_entry \<noteq> []" and k: "py_strip key_entry \<noteq> []"
    by (auto simp: create_pfx_advanced_def Let_def split: if_splits)
  from assms pw c k obtain m fs' where
    r: "create_pfx_try L fs dir (py_strip chain_entry) (py_strip key_entry) kp pw = Inr (m, fs')"
    and res: "create_pfx_advanced L fs dir chain_entry key_entry kp pw = (m, fs')"
    by (auto simp: create_pfx_advanced_def Let_def split: sum.splits)
  from res assms have changed: "m = showinfo msg \<or> fs' \<noteq> fs" by simp
  from create_pfx_try_cases[OF r] changed
  obtain key_data key chain_data pfx_data where
    "fs (py_strip key_entry) = Some key_data"
    "load_pem_private_key L key_data (password_or_none kp) = Inr key"
    "fs (py_strip chain_entry) = Some chain_data"
    "load_certificates_from_pem L chain_data \<noteq> []"
    "serialize_key_and_certificates L ''SSL Certificate'' key
              (hd (load_certificates_from_pem L chain_data))
              (if length (load_certificates_from_pem L chain_data) > 1
               then Some (tl (load_certificates_from_pem L chain_data)) else None)
              (BestAvailableEncryption (str_encode pw)) = Inr pfx_data"
    "m = showinfo (''PFX file created:'' @ [CHR 0x0A] @ path_join dir ''Certificate.pfx'')"
    "fs' = fs(path_join dir ''Certificate.pfx'' \<mapsto> pfx_data)"
    by blast
  with res pw show ?thesis by blast
qed

text \<open>
  C5. With an empty container passphrase \<^verbatim>\<open>create_pfx_advanced\<close> shows an error and
  leaves the file system as it was; when a chain file and a key file are given, the
  error is the missing-passphrase one (\<^verbatim>\<open>Please enter a password for the PFX file\<close>).
  Whenever it reports success or changes the file system, the passphrase is not empty
  and the file written is what the library's writer returned for
  \<^verbatim>\<open>BestAvailableEncryption\<close> under the non-empty encoded passphrase: the writer is never
  called without encryption.
\<close>

theorem create_pfx_advanced_passphrase:
  "(pfx_password = [] \<longrightarrow>
      snd (create_pfx_advanced L fs dir chain_entry key_entry kp pfx_password) = fs \<and>
      (\<exists>msg. fst (create_pfx_advanced L fs dir chain_entry key_entry kp pfx_password) = showerror msg)) \<and>
   (pfx_password = [] \<and> py_strip chain_entry \<noteq> [] \<and> py_strip key_entry \<noteq> [] \<longrightarrow>
      create_pfx_advanced L fs dir chain_entry key_entry kp pfx_password =
        (showerror ''Please enter a password for the PFX file'', fs)) \<and>
   (fst (create_pfx_advanced L fs dir chain_entry key_entry kp pfx_password) = showinfo msg
      \<or> snd (create_pfx_advanced L fs dir chain_entry key_entry kp pfx_password) \<noteq> fs \<longrightarrow>
      pfx_password \<noteq> [] \<and> str_encode pfx_password \<noteq> [] \<and>
      (\<exists>key cert cas pfx_data.
         serialize_key_and_certificates L ''SSL Certificate'' key cert cas
           (BestAvailableEncryption (str_encode pfx_password)) = Inr pfx_data \<and>
         create_pfx_advanced L fs dir chain_entry key_entry kp pfx_password =
           (showinfo (''PFX file created:'' @ [CHR 0x0A] @ path_join dir ''Certificate.pfx''),
            fs(path_join dir ''Certificate.pfx'' \<mapsto> pfx_data))))"
proof (intro conjI impI)
  assume "pfx_password = []"
  then show "snd (create_pfx_advanced L fs dir chain_entry key_entry kp pfx_password) = fs"
    by (simp add: create_pfx_advanced_def Let_def)
next
  assume "pfx_password = []"
  then show "\<exists>msg. fst (create_pfx_advanced L fs dir chain_entry key_entry kp pfx_password) = showerror msg"
    by (simp add: create_pfx_advanced_def Let_def)
next
  assume "pfx_password = [] \<and> py_strip chain_entry \<noteq> [] \<and> py_strip key_entry \<noteq> []"
  then show "create_pfx_advanced L fs dir chain_entry key_entry kp pfx_password =
        (showerror ''Please enter a password for the PFX file'', fs)"
    by (simp add: create_pfx_advanced_def Let_def)
next
  assume a: "fst (create_pfx_advanced L fs dir chain_entry key_entry kp pfx_password) = showinfo msg
      \<or> snd (create_pfx_advanced L fs dir chain_entry key_entry kp pfx_password) \<noteq> fs"
  from create_pfx_advanced_success[OF a] show "pfx_password \<noteq> []" by blast
  then show "str_encode pfx_password \<noteq> []" by (simp add: str_encode_empty_iff)
  from create_pfx_advanced_success[OF a]
  show "\<exists>key cert cas pfx_data.
         serialize_key_and_certificates L ''SSL Certificate'' key cert cas
           (BestAvailableEncryption (str_encode pfx_password)) = Inr pfx_data \<and>
         create_pfx_advanced L fs dir chain_entry key_entry kp pfx_password =
           (showinfo (''PFX file created:'' @ [CHR 0x0A] @ path_join dir ''Certificate.pfx''),
            fs(path_join dir ''Certificate.pfx'' \<mapsto> pfx_data))"
    by blast
qed

lemma demo_lib_fields:
  "load_pem_private_key demo_lib = demo_load_pem_private_key"
  "private_bytes demo_lib = demo_private_bytes"
  "serialize_key_and_certificates demo_lib = demo_serialize"
  "load_key_and_certificates demo_lib = demo_load_key_and_certificates"
  by (simp_all add: demo_lib_def)

lemma demo_strip: "py_strip ''chain.cer'' = ''chain.cer''" "py_strip ''key.pem'' = ''key.pem''"
  "py_strip ''out/Certificate.pfx'' = ''out/Certificate.pfx''"
  by code_simp+

lemma demo_load_leaf: "load_certificates_from_pem demo_lib (pem_block ''TA=='') = [cert_leaf]"
  by code_simp

lemma demo_encode: "str_encode ''secret'' = ''secret''"
  by code_simp

lemma demo_create_secret:
  "create_pfx_advanced demo_lib [''key.pem'' \<mapsto> ''demo key'', ''chain.cer'' \<mapsto> pem_block ''TA=='']
     ''out'' ''chain.cer'' ''key.pem'' [] ''secret'' = 
   (showinfo (''PFX file created:'' @ [CHR 0x0A] @ ''out/Certificate.pfx''),
    [''key.pem'' \<mapsto> ''demo key'', ''chain.cer'' \<mapsto> pem_block ''TA=='', ''out/Certificate.pfx'' \<mapsto> ''container under secret''])"
  by (simp add: create_pfx_advanced_def create_pfx_try_def demo_strip read_file_def Let_def demo_load_leaf
      password_or_none_def demo_lib_fields demo_load_pem_private_key_def demo_serialize_def path_join_def
      demo_encode)

text \<open>
  Two runs on a key file and a one-certificate chain file: the empty passphrase is
  refused and nothing is written; under the passphrase \<^verbatim>\<open>secret\<close> the file written is
  the writer's output for \<^verbatim>\<open>BestAvailableEncryption(b"secret")\<close>.
\<close>

theorem create_pfx_advanced_passphrase_witness:
  "create_pfx_advanced demo_lib [''key.pem'' \<mapsto> ''demo key'', ''chain.cer'' \<mapsto> pem_block ''TA=='']
     ''out'' ''chain.cer'' ''key.pem'' [] [] =
     (showerror ''Please enter a password for the PFX file'',
      [''key.pem'' \<mapsto> ''demo key'', ''chain.cer'' \<mapsto> pem_block ''TA=='']) \<and>
   create_pfx_advanced demo_lib [''key.pem'' \<mapsto> ''demo key'', ''chain.cer'' \<mapsto> pem_block ''TA=='']
     ''out'' ''chain.cer'' ''key.pem'' [] ''secret'' =
     (showinfo (''PFX file created:'' @ [CHR 0x0A] @ ''out/Certificate.pfx''),
      [''key.pem'' \<mapsto> ''demo key'', ''chain.cer'' \<mapsto> pem_block ''TA=='',
       ''out/Certificate.pfx'' \<mapsto> ''container under secret'']) \<and>
   (\<exists>key cert cas.
      serialize_key_and_certificates demo_lib ''SSL Certificate'' key cert cas
        (BestAvailableEncryption ''secret'') = Inr ''container under secret'')"
proof -
  let ?fs = "[''key.pem'' \<mapsto> ''demo key'', ''chain.cer'' \<mapsto> pem_block ''TA=='']"
  have 1: "create_pfx_advanced demo_lib ?fs ''out'' ''chain.cer'' ''key.pem'' [] [] =
     (showerror ''Please enter a password for the PFX file'', ?fs)"
    using create_pfx_advanced_passphrase[of "[]" demo_lib ?fs "''out''" "''chain.cer''" "''key.pem''" "[]"]
    by (simp add: demo_strip)
  have "fst (create_pfx_advanced demo_lib ?fs ''out'' ''chain.cer'' ''key.pem'' [] ''secret'')
      = showinfo (''PFX file created:'' @ [CHR 0x0A] @ ''out/Certificate.pfx'')"
    by (simp add: demo_create_secret)
  with create_pfx_advanced_passphrase[of "''secret''" demo_lib ?fs "''out''" "''chain.cer''" "''key.pem''" "[]"
      "''PFX file created:'' @ [CHR 0x0A] @ ''out/Certificate.pfx''"]
  obtain key cert cas pfx_data where
    ser: "serialize_key_and_certificates demo_lib ''SSL Certificate'' key cert cas
           (BestAvailableEncryption (str_encode ''secret'')) = Inr pfx_data"
    and res: "create_pfx_advanced demo_lib ?fs ''out'' ''chain.cer'' ''key.pem'' [] ''secret'' =
           (showinfo (''PFX file created:'' @ [CHR 0x0A] @ path_join ''out'' ''Certificate.pfx''),
            ?fs(path_join ''out'' ''Certificate.pfx'' \<mapsto> pfx_data))"
    by blast
  from res demo_create_secret
  have eq: "?fs(path_join ''out'' ''Certificate.pfx'' \<mapsto> pfx_data)
      = ?fs(''out/Certificate.pfx'' \<mapsto> ''container under secret'')"
    by (metis prod.inject)
  from fun_cong[OF eq, of "''out/Certificate.pfx''"]
  have "pfx_data = ''container under secret''"
    by (simp add: path_join_def)
  with ser have "\<exists>key cert cas.
      serialize_key_and_certificates demo_lib ''SSL Certificate'' key cert cas
        (BestAvailableEncryption ''secret'') = Inr ''container under secret''"
    by (auto simp: demo_encode)
  with 1 demo_create_secret show ?thesis by simp
qed

text \<open>
  C6. Let the library's reader invert its writer under the same password. If
  \<^verbatim>\<open>create_pfx_advanced\<close> succeeds with passphrase \<open>p\<close>, and \<^verbatim>\<open>extract_key\<close> is pointed
  at a file holding the bytes it wrote and given the same \<open>p\<close>, then the PEM text
  \<^verbatim>\<open>extract_key\<close> saves is the unencrypted PKCS#8 PEM encoding of the very key that
  \<^verbatim>\<open>create_pfx_advanced\<close> loaded from the key file.
\<close>

theorem reader_inverts_writer_roundtrip:
  assumes "reader_inverts_writer L"
    and "create_pfx_advanced L fs dir chain_entry key_entry kp p = (showinfo msg, fs')"
    and "fs2 (py_strip extract_entry) = fs' (path_join dir ''Certificate.pfx'')"
    and "py_strip extract_entry \<noteq> []"
    and "save_path \<noteq> []"
  shows "\<exists>key_data key.
           fs (py_strip key_entry) = Some key_data \<and>
           load_pem_private_key L key_data (password_or_none kp) = Inr key \<and>
           extract_key L fs2 extract_entry p save_path =
             (Some (showinfo (''Private key extracted successfully to:'' @ [CHR 0x0A] @ save_path)),
              fs2(save_path \<mapsto> private_bytes L key PEM PKCS8 NoEncryption))"
proof -
  from assms(2) have "fst (create_pfx_advanced L fs dir chain_entry key_entry kp p) = showinfo msg
      \<or> snd (create_pfx_advanced L fs dir chain_entry key_entry kp p) \<noteq> fs"
    by simp
  from create_pfx_advanced_success[OF this] assms(2)
  obtain key_data key cert cas pfx_data where
    p: "p \<noteq> []" and kd: "fs (py_strip key_entry) = Some key_data"
    and k: "load_pem_private_key L key_data (password_or_none kp) = Inr key"
    and ser: "serialize_key_and_certificates L ''SSL Certificate'' key cert cas
              (BestAvailableEncryption (str_encode p)) = Inr pfx_data"
    and fs': "fs' = fs(path_join dir ''Certificate.pfx'' \<mapsto> pfx_data)"
    by auto
  from assms(1) ser obtain cert' cas' where
    ld: "load_key_and_certificates L pfx_data (Some (str_encode p)) = Inr (Some key, cert', cas')"
    unfolding reader_inverts_writer_def by blast
  from assms(3) fs' have rd: "fs2 (py_strip extract_entry) = Some pfx_data" by simp
  have "extract_key_pem L fs2 (py_strip extract_entry) p = Inr (private_bytes L key PEM PKCS8 NoEncryption)"
    using rd ld p by (simp add: extract_key_pem_def read_file_def password_or_none_def)
  then have "extract_key L fs2 extract_entry p save_path =
             (Some (showinfo (''Private key extracted successfully to:'' @ [CHR 0x0A] @ save_path)),
              fs2(save_path \<mapsto> private_bytes L key PEM PKCS8 NoEncryption))"
    using assms(4,5) by (simp add: extract_key_def Let_def)
  with kd k show ?thesis by blast
qed

lemma demo_reader_inverts_writer: "reader_inverts_writer demo_lib"
  by (auto simp: reader_inverts_writer_def demo_lib_def demo_serialize_def
      demo_load_key_and_certificates_def split: if_splits key_encryption.splits)

text \<open>
  The stand-in library obeys the law, and extracting from the container written above
  under \<^verbatim>\<open>secret\<close> saves the PKCS#8 PEM text of the key that went in.
\<close>

theorem reader_inverts_writer_roundtrip_witness:
  "reader_inverts_writer demo_lib \<and>
   load_pem_private_key demo_lib ''demo key'' None = Inr demo_key \<and>
   extract_key demo_lib
     [''key.pem'' \<mapsto> ''demo key'', ''chain.cer'' \<mapsto> pem_block ''TA=='',
      ''out/Certificate.pfx'' \<mapsto> ''container under secret'']
     ''out/Certificate.pfx'' ''secret'' ''key.pem''
   = (Some (showinfo (''Private key extracted successfully to:'' @ [CHR 0x0A] @ ''key.pem'')),
      [''key.pem'' \<mapsto> private_bytes demo_lib demo_key PEM PKCS8 NoEncryption,
       ''chain.cer'' \<mapsto> pem_block ''TA=='',
       ''out/Certificate.pfx'' \<mapsto> ''container under secret''])"
proof -
  have k: "load_pem_private_key demo_lib ''demo key'' None = Inr demo_key"
    by (simp add: demo_lib_fields demo_load_pem_private_key_def)
  have "\<exists>key_data key.
           [''key.pem'' \<mapsto> ''demo key'', ''chain.cer'' \<mapsto> pem_block ''TA==''] (py_strip ''key.pem'') = Some key_data \<and>
           load_pem_private_key demo_lib key_data (password_or_none []) = Inr key \<and>
           extract_key demo_lib
             [''key.pem'' \<mapsto> ''demo key'', ''chain.cer'' \<mapsto> pem_block ''TA=='',
              ''out/Certificate.pfx'' \<mapsto> ''container under secret'']
             ''out/Certificate.pfx'' ''secret'' ''key.pem'' =
             (Some (showinfo (''Private key extracted successfully to:'' @ [CHR 0x0A] @ ''key.pem'')),
              [''key.pem'' \<mapsto> ''demo key'', ''chain.cer'' \<mapsto> pem_block ''TA=='',
               ''out/Certificate.pfx'' \<mapsto> ''container under secret'']
                (''key.pem'' \<mapsto> private_bytes demo_lib key PEM PKCS8 NoEncryption))"
    by (rule reader_inverts_writer_roundtrip[OF demo_reader_inverts_writer demo_create_secret])
       (simp_all add: demo_strip path_join_def)
  then have "extract_key demo_lib
             [''key.pem'' \<mapsto> ''demo key'', ''chain.cer'' \<mapsto> pem_block ''TA=='',
              ''out/Certificate.pfx'' \<mapsto> ''container under secret'']
             ''out/Certificate.pfx'' ''secret'' ''key.pem'' =
             (Some (showinfo (''Private key extracted successfully to:'' @ [CHR 0x0A] @ ''key.pem'')),
              [''key.pem'' \<mapsto> ''demo key'', ''chain.cer'' \<mapsto> pem_block ''TA=='',
               ''out/Certificate.pfx'' \<mapsto> ''container under secret'']
                (''key.pem'' \<mapsto> private_bytes demo_lib demo_key PEM PKCS8 NoEncryption))"
    using k by (auto simp: demo_strip password_or_none_def)
  moreover have "[''key.pem'' \<mapsto> ''demo key'', ''chain.cer'' \<mapsto> pem_block ''TA=='',
               ''out/Certificate.pfx'' \<mapsto> ''container under secret'']
                (''key.pem'' \<mapsto> private_bytes demo_lib demo_key PEM PKCS8 NoEncryption)
      = [''key.pem'' \<mapsto> private_bytes demo_lib demo_key PEM PKCS8 NoEncryption,
       ''chain.cer'' \<mapsto> pem_block ''TA=='',
       ''out/Certificate.pfx'' \<mapsto> ''container under secret'']"
    by (auto simp: fun_eq_iff)
  ultimately show ?thesis
    using demo_reader_inverts_writer k by simp
qed

lemma extract_key_pem_reader:
  assumes "\<And>data. reader data (password_or_none pw) = load_key_and_certificates L data (password_or_none pw')"
  shows "extract_key_pem (L\<lparr>load_key_and_certificates := reader\<rparr>) fs path pw
           = extract_key_pem L fs path pw'"
  using assms by (auto simp: extract_key_pem_def split: sum.splits option.splits)

text \<open>
  With the empty passphrase the PEM text is computed from what the reader returns when
  it is handed no password.
\<close>

lemma extract_key_pem_empty:
  assumes "fs path = Some pfx_data"
  shows "extract_key_pem L fs path [] =
           (case load_key_and_certificates L pfx_data None of
              Inl e \<Rightarrow> Inl e
            | Inr (private_key, cert, cas) \<Rightarrow>
                (case private_key of
                   None \<Rightarrow> Inl (ValueError ''No private key found in PFX file'')
                 | Some key \<Rightarrow> Inr (private_bytes L key PEM PKCS8 NoEncryption)))"
  using assms by (simp add: extract_key_pem_def read_file_def password_or_none_def)

text \<open>
  C10. With the empty passphrase \<^verbatim>\<open>extract_key\<close> hands the reader no password at all
  (\<open>None\<close>, not the empty password \<^verbatim>\<open>b""\<close>): the run on a container file is decided by
  what the reader returns for that container and no password. If it returns a key,
  the unencrypted PKCS#8 PEM text of that key is saved; if it raises, the error is
  shown and nothing is written. Hence two containers for which the reader, handed no
  password, returns the same (one protected under the empty password and one without
  password, for a reader that opens both) give the same dialog and the same key text.
  The reader is never handed \<^verbatim>\<open>b""\<close>, whatever the passphrase: a reader that differs only
  there gives the same run.
\<close>

theorem extract_key_empty_passphrase:
  "password_or_none [] = None \<and>
   (py_strip entry \<noteq> [] \<and> fs (py_strip entry) = Some pfx_data \<and> save_path \<noteq> [] \<and>
    load_key_and_certificates L pfx_data None = Inr (Some key, cert, cas) \<longrightarrow>
      extract_key L fs entry [] save_path =
        (Some (showinfo (''Private key extracted successfully to:'' @ [CHR 0x0A] @ save_path)),
         fs(save_path \<mapsto> private_bytes L key PEM PKCS8 NoEncryption))) \<and>
   (py_strip entry \<noteq> [] \<and> fs (py_strip entry) = Some pfx_data \<and>
    load_key_and_certificates L pfx_data None = Inl e \<longrightarrow>
      extract_key L fs entry [] save_path =
        (Some (showerror_exception (''Failed to extract private key:'' @ [CHR 0x0A]) e), fs)) \<and>
   (py_strip entry \<noteq> [] \<and> fs (py_strip entry) = Some pfx_data \<and>
    load_key_and_certificates L pfx_data None = Inr (None, cert, cas) \<longrightarrow>
      extract_key L fs entry [] save_path =
        (Some (showerror_exception (''Failed to extract private key:'' @ [CHR 0x0A])
                 (ValueError ''No private key found in PFX file'')), fs)) \<and>
   (fs1 (py_strip entry) = Some data1 \<and> fs2 (py_strip entry) = Some data2 \<and>
    load_key_and_certificates L data1 None = load_key_and_certificates L data2 None \<longrightarrow>
      fst (extract_key L fs1 entry [] save_path) = fst (extract_key L fs2 entry [] save_path) \<and>
      extract_key_pem L fs1 (py_strip entry) [] = extract_key_pem L fs2 (py_strip entry) []) \<and>
   ((\<forall>data pw. pw \<noteq> Some [] \<longrightarrow> reader data pw = load_key_and_certificates L data pw) \<longrightarrow>
      extract_key (L\<lparr>load_key_and_certificates := reader\<rparr>) fs entry password save_path =
        extract_key L fs entry password save_path)"
proof (intro conjI impI)
  show "password_or_none [] = None"
    by (simp add: password_or_none_def)
next
  assume a: "py_strip entry \<noteq> [] \<and> fs (py_strip entry) = Some pfx_data \<and> save_path \<noteq> [] \<and>
    load_key_and_certificates L pfx_data None = Inr (Some key, cert, cas)"
  then have "extract_key_pem L fs (py_strip entry) [] = Inr (private_bytes L key PEM PKCS8 NoEncryption)"
    by (simp add: extract_key_pem_empty)
  with a show "extract_key L fs entry [] save_path =
        (Some (showinfo (''Private key extracted successfully to:'' @ [CHR 0x0A] @ save_path)),
         fs(save_path \<mapsto> private_bytes L key PEM PKCS8 NoEncryption))"
    by (simp add: extract_key_def Let_def)
next
  assume a: "py_strip entry \<noteq> [] \<and> fs (py_strip entry) = Some pfx_data \<and>
    load_key_and_certificates L pfx_data None = Inl e"
  then have "extract_key_pem L fs (py_strip entry) [] = Inl e"
    by (simp add: extract_key_pem_empty)
  with a show "extract_key L fs entry [] save_path =
        (Some (showerror_exception (''Failed to extract private key:'' @ [CHR 0x0A]) e), fs)"
    by (simp add: extract_key_def Let_def)
next
  assume a: "py_strip entry \<noteq> [] \<and> fs (py_strip entry) = Some pfx_data \<and>
    load_key_and_certificates L pfx_data None = Inr (None, cert, cas)"
  then have "extract_key_pem L fs (py_strip entry) []
      = Inl (ValueError ''No private key found in PFX file'')"
    by (simp add: extract_key_pem_empty)
  with a show "extract_key L fs entry [] save_path =
        (Some (showerror_exception (''Failed to extract private key:'' @ [CHR 0x0A])
                 (ValueError ''No private key found in PFX file'')), fs)"
    by (simp add: extract_key_def Let_def)
next
  assume a: "fs1 (py_strip entry) = Some data1 \<and> fs2 (py_strip entry) = Some data2 \<and>
    load_key_and_certificates L data1 None = load_key_and_certificates L data2 None"
  then show pem: "extract_key_pem L fs1 (py_strip entry) [] = extract_key_pem L fs2 (py_strip entry) []"
    by (simp add: extract_key_pem_empty)
  then show "fst (extract_key L fs1 entry [] save_path) = fst (extract_key L fs2 entry [] save_path)"
    by (simp add: extract_key_def Let_def split: sum.splits)
next
  assume "\<forall>data pw. pw \<noteq> Some [] \<longrightarrow> reader data pw = load_key_and_certificates L data pw"
  then have "\<And>data. reader data (password_or_none password)
      = load_key_and_certificates L data (password_or_none password)"
    using password_or_none_not_empty by blast
  then have "extract_key_pem (L\<lparr>load_key_and_certificates := reader\<rparr>) fs (py_strip entry) password
      = extract_key_pem L fs (py_strip entry) password"
    by (rule extract_key_pem_reader)
  then show "extract_key (L\<lparr>load_key_and_certificates := reader\<rparr>) fs entry password save_path =
        extract_key L fs entry password save_path"
    by (simp add: extract_key_def Let_def)
qed

lemma demo_strict_agrees:
  "\<forall>data pw. pw \<noteq> Some [] \<longrightarrow> demo_load_strict data pw = load_key_and_certificates demo_lib data pw"
  by (simp add: demo_load_strict_def demo_lib_def)

lemma demo_open_without_password:
  "load_key_and_certificates demo_lib ''container under '' None
     = Inr (Some demo_key, Some cert_leaf, [])"
  "load_key_and_certificates demo_lib ''unprotected container'' None
     = Inr (Some demo_key, Some cert_leaf, [])"
  "load_key_and_certificates demo_lib ''container under secret'' None
     = Inl (ValueError ''Invalid password or PKCS12 data'')"
  by (simp_all add: demo_lib_fields demo_load_key_and_certificates_def)

text \<open>
  Four runs with the empty passphrase: the container written under the empty password
  and the container without password give the same dialog and the same key text; the
  container under \<^verbatim>\<open>secret\<close> is refused; and with a reader that finds no key when handed
  \<^verbatim>\<open>b""\<close> the first run is the same, since \<^verbatim>\<open>b""\<close> is never handed over.
\<close>

theorem extract_key_empty_passphrase_witness:
  "extract_key demo_lib [''in.pfx'' \<mapsto> ''container under ''] ''in.pfx'' [] ''key.pem''
     = (Some (showinfo (''Private key extracted successfully to:'' @ [CHR 0x0A] @ ''key.pem'')),
        [''in.pfx'' \<mapsto> ''container under '',
         ''key.pem'' \<mapsto> private_bytes demo_lib demo_key PEM PKCS8 NoEncryption]) \<and>
   extract_key demo_lib [''in.pfx'' \<mapsto> ''unprotected container''] ''in.pfx'' [] ''key.pem''
     = (Some (showinfo (''Private key extracted successfully to:'' @ [CHR 0x0A] @ ''key.pem'')),
        [''in.pfx'' \<mapsto> ''unprotected container'',
         ''key.pem'' \<mapsto> private_bytes demo_lib demo_key PEM PKCS8 NoEncryption]) \<and>
   extract_key demo_lib [''in.pfx'' \<mapsto> ''container under secret''] ''in.pfx'' [] ''key.pem''
     = (Some (showerror_exception (''Failed to extract private key:'' @ [CHR 0x0A])
                (ValueError ''Invalid password or PKCS12 data'')),
        [''in.pfx'' \<mapsto> ''container under secret'']) \<and>
   extract_key (demo_lib\<lparr>load_key_and_certificates := demo_load_strict\<rparr>)
       [''in.pfx'' \<mapsto> ''container under ''] ''in.pfx'' [] ''key.pem''
     = extract_key demo_lib [''in.pfx'' \<mapsto> ''container under ''] ''in.pfx'' [] ''key.pem'' \<and>
   extract_key_pem demo_lib [''in.pfx'' \<mapsto> ''container under ''] ''in.pfx'' []
     = extract_key_pem demo_lib [''in.pfx'' \<mapsto> ''unprotected container''] ''in.pfx'' []"
proof -
  have s: "py_strip ''in.pfx'' = ''in.pfx''" by code_simp
  have 1: "extract_key demo_lib [''in.pfx'' \<mapsto> ''container under ''] ''in.pfx'' [] ''key.pem''
     = (Some (showinfo (''Private key extracted successfully to:'' @ [CHR 0x0A] @ ''key.pem'')),
        [''in.pfx'' \<mapsto> ''container under '',
         ''key.pem'' \<mapsto> private_bytes demo_lib demo_key PEM PKCS8 NoEncryption])"
    using extract_key_empty_passphrase[where L = demo_lib and entry = "''in.pfx''"
        and fs = "[''in.pfx'' \<mapsto> ''container under '']" and pfx_data = "''container under ''"
        and save_path = "''key.pem''" and key = demo_key and cert = "Some cert_leaf" and cas = "[]"]
    by (simp add: s demo_open_without_password)
  have 2: "extract_key demo_lib [''in.pfx'' \<mapsto> ''unprotected container''] ''in.pfx'' [] ''key.pem''
     = (Some (showinfo (''Private key extracted successfully to:'' @ [CHR 0x0A] @ ''key.pem'')),
        [''in.pfx'' \<mapsto> ''unprotected container'',
         ''key.pem'' \<mapsto> private_bytes demo_lib demo_key PEM PKCS8 NoEncryption])"
    using extract_key_empty_passphrase[where L = demo_lib and entry = "''in.pfx''"
        and fs = "[''in.pfx'' \<mapsto> ''unprotected container'']" and pfx_data = "''unprotected container''"
        and save_path = "''key.pem''" and key = demo_key and cert = "Some cert_leaf" and cas = "[]"]
    by (simp add: s demo_open_without_password)
  have 3: "extract_key demo_lib [''in.pfx'' \<mapsto> ''container under secret''] ''in.pfx'' [] ''key.pem''
     = (Some (showerror_exception (''Failed to extract private key:'' @ [CHR 0x0A])
                (ValueError ''Invalid password or PKCS12 data'')),
        [''in.pfx'' \<mapsto> ''container under secret''])"
    using extract_key_empty_passphrase[where L = demo_lib and entry = "''in.pfx''"
        and fs = "[''in.pfx'' \<mapsto> ''container under secret'']"
        and pfx_data = "''container under secret''"
        and e = "ValueError ''Invalid password or PKCS12 data''"]
    by (simp add: s demo_open_without_password)
  have 4: "extract_key (demo_lib\<lparr>load_key_and_certificates := demo_load_strict\<rparr>)
       [''in.pfx'' \<mapsto> ''container under ''] ''in.pfx'' [] ''key.pem''
     = extract_key demo_lib [''in.pfx'' \<mapsto> ''container under ''] ''in.pfx'' [] ''key.pem''"
    using extract_key_empty_passphrase[where L = demo_lib and reader = demo_load_strict
        and fs = "[''in.pfx'' \<mapsto> ''container under '']" and entry = "''in.pfx''"
        and password = "[]" and save_path = "''key.pem''"] demo_strict_agrees
    by blast
  have 5: "extract_key_pem demo_lib [''in.pfx'' \<mapsto> ''container under ''] ''in.pfx'' []
     = extract_key_pem demo_lib [''in.pfx'' \<mapsto> ''unprotected container''] ''in.pfx'' []"
    using extract_key_empty_passphrase[where L = demo_lib and entry = "''in.pfx''"
        and ?fs1.0 = "[''in.pfx'' \<mapsto> ''container under '']" and ?data1.0 = "''container under ''"
        and ?fs2.0 = "[''in.pfx'' \<mapsto> ''unprotected container'']"
        and ?data2.0 = "''unprotected container''"]
    by (simp add: s demo_open_without_password)
  from 1 2 3 4 5 show ?thesis by simp
qed

subsection \<open>Key and request generator\<close>

lemma collect_attrs_result:
  assumes "collect_attrs L entries attrs = Inr result"
  shows "result = attrs @ concat (map (\<lambda>(oid, val). case val of None \<Rightarrow> [] | Some v \<Rightarrow> if v = [] then [] else [(oid, v)]) entries)"
  using assms
proof (induction entries arbitrary: attrs)
  case Nil
  then show ?case by simp
next
  case (Cons field entries)
  obtain oid val where field: "field = (oid, val)" by (cases field) auto
  show ?case
  proof (cases val)
    case None
    with Cons field show ?thesis by simp
  next
    case (Some v)
    show ?thesis
    proof (cases "v = []")
      case True
      with Cons field Some show ?thesis by simp
    next
      case False
      with Cons.prems field Some obtain a where
        a: "NameAttribute L oid v = Inr a" and rest: "collect_attrs L entries (attrs @ [a]) = Inr result"
        by (auto split: sum.splits)
      from a have "a = (oid, v)"
        by (auto simp: NameAttribute_def split: option.splits)
      with Cons.IH[OF rest] field Some False show ?thesis by simp
    qed
  qed
qed

lemma build_subject_result:
  assumes "build_subject L data = Inr subject'"
  shows "subject' = (if present_fields data = [] then [(COMMON_NAME, ''default'')] else present_fields data)"
proof -
  from assms obtain attrs where c: "collect_attrs L (dn_fields data) [] = Inr attrs"
    by (auto simp: build_subject_def split: sum.splits)
  from collect_attrs_result[OF c] have attrs: "attrs = present_fields data"
    by (simp add: present_fields_def)
  show ?thesis
  proof (cases "attrs = []")
    case True
    with assms c have "NameAttribute L COMMON_NAME ''default'' = Inr (hd subject') \<and> subject' = [hd subject']"
      by (auto simp: build_subject_def split: sum.splits)
    then have "subject' = [(COMMON_NAME, ''default'')]"
      by (auto simp: NameAttribute_def split: option.splits)
    with True attrs show ?thesis by simp
  next
    case False
    with assms c have "subject' = attrs" by (simp add: build_subject_def)
    with False attrs show ?thesis by simp
  qed
qed

lemma present_fields_values: "(oid, v) \<in> set (present_fields data) \<Longrightarrow> v \<noteq> []"
  by (auto simp: present_fields_def dn_fields_def split: option.splits if_splits)

lemma generate_csr_parts:
  assumes "generate_csr_from_data L fs dir data sans key_type key_size ecc_curve password = Inr (key, csr, fs')"
  shows "generate_key L key_type key_size ecc_curve = Inr key \<and>
         build_subject L data = Inr (csr_subject csr) \<and>
         build_extensions L sans = Inr (csr_extensions csr) \<and>
         sign_request L key SHA256 (csr_subject csr) (csr_extensions csr) = Inr (csr_signature csr) \<and>
         csr_key csr = key \<and> csr_signature_hash csr = SHA256"
  using assms
  by (auto simp: generate_csr_from_data_def Let_def split: sum.splits)

text \<open>
  C3 (amended). The claim as stated fails: parameters outside the listed sets are not
  rejected. What holds: for every key type other than \<^verbatim>\<open>"RSA"\<close> key generation never
  fails; the curve is the one named by \<^verbatim>\<open>P-256\<close>, \<^verbatim>\<open>P-384\<close> or \<^verbatim>\<open>P-521\<close> and P-256 for
  every other curve name. For \<^verbatim>\<open>"RSA"\<close> the bit length is handed to the library's
  generator as it is, with exponent 65537, and generation fails only with the error
  the library raises. \<^verbatim>\<open>generate_csr_from_data\<close> uses the key so generated.
\<close>

theorem generate_key_parameters:
  "(key_type \<noteq> ''RSA'' \<longrightarrow>
      generate_key L key_type key_size ecc_curve =
        Inr (EllipticCurvePrivateKey
               (if ecc_curve = ''P-256'' then SECP256R1
                else if ecc_curve = ''P-384'' then SECP384R1
                else if ecc_curve = ''P-521'' then SECP521R1
                else SECP256R1)
               (ec_generate_private_key L
                 (if ecc_curve = ''P-256'' then SECP256R1
                  else if ecc_curve = ''P-384'' then SECP384R1
                  else if ecc_curve = ''P-521'' then SECP521R1
                  else SECP256R1)))) \<and>
   (key_type = ''RSA'' \<longrightarrow>
      generate_key L key_type key_size ecc_curve =
        (case rsa_generate_private_key L 65537 key_size of
           Inl e \<Rightarrow> Inl e
         | Inr material \<Rightarrow> Inr (RSAPrivateKey 65537 key_size material))) \<and>
   (generate_csr_from_data L fs dir data sans key_type key_size ecc_curve password = Inr (key, csr, fs')
      \<longrightarrow> generate_key L key_type key_size ecc_curve = Inr key)"
  using generate_csr_parts[of L fs dir data sans key_type key_size ecc_curve password key csr fs']
  by (simp add: generate_key_def curve_map_def Let_def)

theorem generate_key_parameters_witness:
  "generate_key demo_lib ''ECC'' 2048 ''P-384'' = Inr (EllipticCurvePrivateKey SECP384R1 9) \<and>
   generate_key demo_lib ''RSA'' 8192 ''P-256'' = Inr (RSAPrivateKey 65537 8192 7) \<and>
   map_sum id fst
     (generate_csr_from_data demo_lib Map.empty ''out'' Map.empty [] ''ECC'' 2048 ''P-384'' [])
     = Inr (EllipticCurvePrivateKey SECP384R1 9)"
proof -
  have 1: "generate_key demo_lib ''ECC'' 2048 ''P-384'' = Inr (EllipticCurvePrivateKey SECP384R1 9)"
    using generate_key_parameters[where key_type = "''ECC''" and L = demo_lib and key_size = 2048
        and ecc_curve = "''P-384''"]
    by (simp add: demo_lib_def)
  have 2: "generate_key demo_lib ''RSA'' 8192 ''P-256'' = Inr (RSAPrivateKey 65537 8192 7)"
    using generate_key_parameters[where key_type = "''RSA''" and L = demo_lib and key_size = 8192
        and ecc_curve = "''P-256''"]
    by (simp add: demo_lib_def demo_rsa_generate_def)
  have "\<not> isl (generate_csr_from_data demo_lib Map.empty ''out'' Map.empty [] ''ECC'' 2048 ''P-384'' [])"
    by code_simp
  then obtain key csr fs' where r:
    "generate_csr_from_data demo_lib Map.empty ''out'' Map.empty [] ''ECC'' 2048 ''P-384'' []
       = Inr (key, csr, fs')"
    by (cases "generate_csr_from_data demo_lib Map.empty ''out'' Map.empty [] ''ECC'' 2048 ''P-384'' []")
       auto
  from generate_key_parameters[where key_type = "''ECC''" and L = demo_lib and key_size = 2048
        and ecc_curve = "''P-384''" and fs = Map.empty and dir = "''out''" and data = Map.empty
        and sans = "[]" and password = "[]" and key = key and csr = csr and fs' = fs'] r
  have "generate_key demo_lib ''ECC'' 2048 ''P-384'' = Inr key" by blast
  with 1 have "key = EllipticCurvePrivateKey SECP384R1 9" by simp
  with r have 3: "map_sum id fst
     (generate_csr_from_data demo_lib Map.empty ''out'' Map.empty [] ''ECC'' 2048 ''P-384'' [])
     = Inr (EllipticCurvePrivateKey SECP384R1 9)"
    by simp
  from 1 2 3 show ?thesis by simp
qed

text \<open>
  The claim as stated fails on this request: the curve name \<^verbatim>\<open>P-999\<close> is not in the
  curve table, and the request is built with a key on P-256.
\<close>

theorem generate_key_unknown_curve_counterexample:
  "curve_map ''P-999'' = None \<and>
   map_sum id fst (generate_csr_from_data demo_lib Map.empty ''out'' Map.empty [] ''ECC'' 2048 ''P-999'' [])
     = Inr (EllipticCurvePrivateKey SECP256R1 9)"
  by code_simp

text \<open>
  C8. In every request that is built, the subject holds exactly the name fields with a
  non-empty value, in the order of the field list; empty and missing fields are left
  out. When no field has a value the subject is the single attribute
  \<^verbatim>\<open>CommonName = "default"\<close>. The subject is never empty and no attribute has an empty
  value.
\<close>

theorem generate_csr_subject:
  assumes "generate_csr_from_data L fs dir data sans key_type key_size ecc_curve password = Inr (key, csr, fs')"
  shows "csr_subject csr = (if present_fields data = [] then [(COMMON_NAME, ''default'')] else present_fields data) \<and>
         csr_subject csr \<noteq> [] \<and>
         (\<forall>(oid, v)\<in>set (csr_subject csr). v \<noteq> [])"
proof -
  from generate_csr_parts[OF assms] have "build_subject L data = Inr (csr_subject csr)" by blast
  from build_subject_result[OF this]
  have s: "csr_subject csr = (if present_fields data = [] then [(COMMON_NAME, ''default'')] else present_fields data)" .
  then have "csr_subject csr \<noteq> []" by (simp split: if_splits)
  moreover have "\<forall>(oid, v)\<in>set (csr_subject csr). v \<noteq> []"
    using s present_fields_values by (auto split: if_splits)
  ultimately show ?thesis using s by blast
qed

theorem generate_csr_subject_witness:
  "map_sum id (\<lambda>(key, csr, fs'). csr_subject csr)
     (generate_csr_from_data demo_lib Map.empty ''out''
        [''Common Name'' \<mapsto> ''example.com'', ''Country'' \<mapsto> [], ''Organization'' \<mapsto> ''Example Ltd'']
        [] ''RSA'' 2048 ''P-256'' [])
   = Inr [(ORGANIZATION_NAME, ''Example Ltd''), (COMMON_NAME, ''example.com'')] \<and>
   map_sum id (\<lambda>(key, csr, fs'). csr_subject csr)
     (generate_csr_from_data demo_lib Map.empty ''out'' [''Common Name'' \<mapsto> [], ''Country'' \<mapsto> []]
        [] ''RSA'' 2048 ''P-256'' [])
   = Inr [(COMMON_NAME, ''default'')]"
proof -
  have "\<not> isl (generate_csr_from_data demo_lib Map.empty ''out''
        [''Common Name'' \<mapsto> ''example.com'', ''Country'' \<mapsto> [], ''Organization'' \<mapsto> ''Example Ltd'']
        [] ''RSA'' 2048 ''P-256'' [])"
    by code_simp
  then obtain key csr fs' where r: "generate_csr_from_data demo_lib Map.empty ''out''
        [''Common Name'' \<mapsto> ''example.com'', ''Country'' \<mapsto> [], ''Organization'' \<mapsto> ''Example Ltd'']
        [] ''RSA'' 2048 ''P-256'' [] = Inr (key, csr, fs')"
    by (cases "generate_csr_from_data demo_lib Map.empty ''out''
        [''Common Name'' \<mapsto> ''example.com'', ''Country'' \<mapsto> [], ''Organization'' \<mapsto> ''Example Ltd'']
        [] ''RSA'' 2048 ''P-256'' []") auto
  have p: "present_fields [''Common Name'' \<mapsto> ''example.com'', ''Country'' \<mapsto> [], ''Organization'' \<mapsto> ''Example Ltd'']
      = [(ORGANIZATION_NAME, ''Example Ltd''), (COMMON_NAME, ''example.com'')]"
    by code_simp
  have 1: "map_sum id (\<lambda>(key, csr, fs'). csr_subject csr)
     (generate_csr_from_data demo_lib Map.empty ''out''
        [''Common Name'' \<mapsto> ''example.com'', ''Country'' \<mapsto> [], ''Organization'' \<mapsto> ''Example Ltd'']
        [] ''RSA'' 2048 ''P-256'' [])
   = Inr [(ORGANIZATION_NAME, ''Example Ltd''), (COMMON_NAME, ''example.com'')]"
    using generate_csr_subject[OF r] p by (simp add: r)
  have "\<not> isl (generate_csr_from_data demo_lib Map.empty ''out'' [''Common Name'' \<mapsto> [], ''Country'' \<mapsto> []]
        [] ''RSA'' 2048 ''P-256'' [])"
    by code_simp
  then obtain key2 csr2 fs2 where r2: "generate_csr_from_data demo_lib Map.empty ''out''
        [''Common Name'' \<mapsto> [], ''Country'' \<mapsto> []] [] ''RSA'' 2048 ''P-256'' [] = Inr (key2, csr2, fs2)"
    by (cases "generate_csr_from_data demo_lib Map.empty ''out'' [''Common Name'' \<mapsto> [], ''Country'' \<mapsto> []]
        [] ''RSA'' 2048 ''P-256'' []") auto
  have p2: "present_fields [''Common Name'' \<mapsto> [], ''Country'' \<mapsto> []] = []"
    by code_simp
  have 2: "map_sum id (\<lambda>(key, csr, fs'). csr_subject csr)
     (generate_csr_from_data demo_lib Map.empty ''out'' [''Common Name'' \<mapsto> [], ''Country'' \<mapsto> []]
        [] ''RSA'' 2048 ''P-256'' [])
   = Inr [(COMMON_NAME, ''default'')]"
    using generate_csr_subject[OF r2] p2 by (simp add: r2)
  from 1 2 show ?thesis by simp
qed

lemma collect_sans_result:
  assumes "collect_sans L sans san_list = Inr result"
  shows "result = san_list @ map (san_entry L) sans"
  using assms
proof (induction sans arbitrary: san_list)
  case Nil
  then show ?case by simp
next
  case (Cons s sans)
  show ?case
  proof (cases "ip_address L (py_strip s)")
    case None
    with Cons.prems obtain d where d: "make_DNSName L (py_strip s) = Inr d"
      and rest: "collect_sans L sans (san_list @ [d]) = Inr result"
      by (auto split: sum.splits)
    from d have "d = DNSName (py_strip s)"
      by (auto simp: make_DNSName_def split: option.splits)
    with Cons.IH[OF rest] None show ?thesis by (simp add: san_entry_def)
  next
    case (Some ip)
    with Cons.prems have "collect_sans L sans (san_list @ [IPAddress ip]) = Inr result" by simp
    from Cons.IH[OF this] Some show ?thesis by (simp add: san_entry_def)
  qed
qed

lemma build_extensions_result:
  assumes "build_extensions L sans = Inr exts"
  shows "exts = (if sans \<noteq> [] then [(SubjectAlternativeName (map (san_entry L) sans), False)] else [])
                @ [(KeyUsage request_key_usage, True), (ExtendedKeyUsage [SERVER_AUTH, CLIENT_AUTH], False)]"
proof (cases "sans = []")
  case True
  with assms show ?thesis by (auto simp: build_extensions_def)
next
  case False
  with assms obtain san_list where c: "collect_sans L sans [] = Inr san_list"
    and e: "exts = [(SubjectAlternativeName san_list, False), (KeyUsage request_key_usage, True), (ExtendedKeyUsage [SERVER_AUTH, CLIENT_AUTH], False)]"
    by (auto simp: build_extensions_def split: sum.splits)
  from collect_sans_result[OF c] e False show ?thesis by simp
qed

text \<open>
  What the source computes, for every list of names: each string is trimmed before it
  is classified.
\<close>

lemma generate_csr_extensions_trimmed:
  assumes "generate_csr_from_data L fs dir data sans key_type key_size ecc_curve password = Inr (key, csr, fs')"
  shows "csr_extensions csr =
           (if sans \<noteq> [] then [(SubjectAlternativeName (map (san_entry L) sans), False)] else [])
           @ [(KeyUsage request_key_usage, True), (ExtendedKeyUsage [SERVER_AUTH, CLIENT_AUTH], False)]"
proof -
  from generate_csr_parts[OF assms] have "build_extensions L sans = Inr (csr_extensions csr)" by blast
  from build_extensions_result[OF this] show ?thesis .
qed

text \<open>Trimming a trimmed string changes nothing.\<close>

lemma dropWhile_rev_keeps_head:
  assumes "dropWhile P u = u"
  shows "dropWhile P (rev (dropWhile P (rev u))) = rev (dropWhile P (rev u))"
proof (cases u)
  case Nil
  then show ?thesis by simp
next
  case (Cons x xs)
  have nx: "\<not> P x"
  proof
    assume "P x"
    with assms Cons have "dropWhile P xs = x # xs" by simp
    then have "length (dropWhile P xs) = Suc (length xs)" by simp
    moreover have "length (dropWhile P xs) \<le> length xs" by (rule length_dropWhile_le)
    ultimately show False by simp
  qed
  have "\<exists>w. dropWhile P (rev u) = w @ [x]"
    using Cons nx by (simp add: dropWhile_append)
  then obtain w where "dropWhile P (rev u) = w @ [x]" by blast
  with nx show ?thesis by simp
qed

lemma py_strip_idem: "py_strip (py_strip s) = py_strip s"
proof -
  have "dropWhile py_isspace (dropWhile py_isspace s) = dropWhile py_isspace s"
    by (rule dropWhile_idem)
  from dropWhile_rev_keeps_head[OF this]
  show ?thesis by (simp add: py_strip_def dropWhile_idem)
qed

text \<open>Every name the form hands over is trimmed and not empty.\<close>

lemma form_sans_trimmed:
  assumes "s \<in> set (form_sans csr_placeholder_active csr_placeholder_text csr_san_text)"
  shows "py_strip s = s \<and> s \<noteq> []"
proof -
  from assms obtain line where "s = py_strip line" and "py_strip line \<noteq> []"
    by (auto simp: form_sans_def Let_def split: if_splits)
  then show ?thesis by (simp add: py_strip_idem)
qed

lemma san_entry_trimmed:
  assumes "\<forall>s\<in>set sans. py_strip s = s"
  shows "map (san_entry L) sans = map (classify_san L) sans"
proof (rule map_cong)
  show "sans = sans" by simp
next
  fix s assume "s \<in> set sans"
  with assms have "py_strip s = s" by blast
  then show "san_entry L s = classify_san L s"
    by (simp add: san_entry_def classify_san_def split: option.splits)
qed

lemma generate_csr_inline_call:
  assumes "generate_csr_inline L py_int fs dir csr_entries csr_placeholder_active
       csr_placeholder_text csr_san_text csr_key_type_var csr_key_size_var csr_ecc_curve_var
       csr_pass_entry = Inr (key, csr, fs')"
  shows "\<exists>data key_type key_size ecc_curve password.
           generate_csr_from_data L fs dir data
             (form_sans csr_placeholder_active csr_placeholder_text csr_san_text)
             key_type key_size ecc_curve password = Inr (key, csr, fs')"
proof -
  from assms obtain key_size where
    "generate_csr_from_data L fs dir (\<lambda>key. map_option py_strip (csr_entries key))
       (form_sans csr_placeholder_active csr_placeholder_text csr_san_text)
       (case csr_key_type_var of Some v \<Rightarrow> v | None \<Rightarrow> ''RSA'') key_size
       (case csr_ecc_curve_var of Some v \<Rightarrow> v | None \<Rightarrow> ''P-256'')
       (case csr_pass_entry of Some v \<Rightarrow> py_strip v | None \<Rightarrow> []) = Inr (key, csr, fs')"
    by (auto simp: generate_csr_inline_def Let_def split: sum.splits)
  then show ?thesis by blast
qed

text \<open>
  C7. The only caller, \<^verbatim>\<open>generate_csr_inline\<close>, hands over names that are trimmed and
  not empty. For such names (in particular for every request built through the form)
  each string that parses as an IPv4 or IPv6 literal becomes an address entry and
  every other string a DNS-name entry of that string, one entry per string, in input
  order; the extension is present only for a non-empty list. In every request that is
  built the key-usage extension is present and marked critical, and never present
  without that mark.
\<close>

theorem generate_csr_san_classification:
  "(generate_csr_from_data L fs dir data sans key_type key_size ecc_curve password = Inr (key, csr, fs')
      \<and> (\<forall>s\<in>set sans. py_strip s = s) \<longrightarrow>
      csr_extensions csr =
        (if sans \<noteq> [] then [(SubjectAlternativeName (map (classify_san L) sans), False)] else [])
        @ [(KeyUsage request_key_usage, True), (ExtendedKeyUsage [SERVER_AUTH, CLIENT_AUTH], False)]) \<and>
   (generate_csr_from_data L fs dir data sans key_type key_size ecc_curve password = Inr (key, csr, fs')
      \<longrightarrow>
      (KeyUsage request_key_usage, True) \<in> set (csr_extensions csr) \<and>
      (\<forall>ku. (KeyUsage ku, False) \<notin> set (csr_extensions csr))) \<and>
   (\<forall>s\<in>set (form_sans csr_placeholder_active csr_placeholder_text csr_san_text).
      py_strip s = s \<and> s \<noteq> []) \<and>
   (generate_csr_inline L py_int fs dir csr_entries csr_placeholder_active csr_placeholder_text
        csr_san_text csr_key_type_var csr_key_size_var csr_ecc_curve_var csr_pass_entry
      = Inr (key, csr, fs') \<longrightarrow>
      csr_extensions csr =
        (if form_sans csr_placeholder_active csr_placeholder_text csr_san_text \<noteq> []
         then [(SubjectAlternativeName
                  (map (classify_san L)
                     (form_sans csr_placeholder_active csr_placeholder_text csr_san_text)), False)]
         else [])
        @ [(KeyUsage request_key_usage, True), (ExtendedKeyUsage [SERVER_AUTH, CLIENT_AUTH], False)])"
proof (intro conjI impI)
  assume a: "generate_csr_from_data L fs dir data sans key_type key_size ecc_curve password
      = Inr (key, csr, fs') \<and> (\<forall>s\<in>set sans. py_strip s = s)"
  then have "map (san_entry L) sans = map (classify_san L) sans"
    by (simp add: san_entry_trimmed)
  with a generate_csr_extensions_trimmed[of L fs dir data sans key_type key_size ecc_curve password key csr fs']
  show "csr_extensions csr =
        (if sans \<noteq> [] then [(SubjectAlternativeName (map (classify_san L) sans), False)] else [])
        @ [(KeyUsage request_key_usage, True), (ExtendedKeyUsage [SERVER_AUTH, CLIENT_AUTH], False)]"
    by simp
next
  assume a: "generate_csr_from_data L fs dir data sans key_type key_size ecc_curve password
      = Inr (key, csr, fs')"
  from generate_csr_extensions_trimmed[OF a]
  show "(KeyUsage request_key_usage, True) \<in> set (csr_extensions csr)"
    by simp
  from generate_csr_extensions_trimmed[OF a]
  show "\<forall>ku. (KeyUsage ku, False) \<notin> set (csr_extensions csr)"
    by auto
next
  show "\<forall>s\<in>set (form_sans csr_placeholder_active csr_placeholder_text csr_san_text).
      py_strip s = s \<and> s \<noteq> []"
    using form_sans_trimmed by blast
next
  assume "generate_csr_inline L py_int fs dir csr_entries csr_placeholder_active csr_placeholder_text
        csr_san_text csr_key_type_var csr_key_size_var csr_ecc_curve_var csr_pass_entry
      = Inr (key, csr, fs')"
  from generate_csr_inline_call[OF this]
  obtain data' key_type' key_size' ecc_curve' password' where
    r: "generate_csr_from_data L fs dir data'
             (form_sans csr_placeholder_active csr_placeholder_text csr_san_text)
             key_type' key_size' ecc_curve' password' = Inr (key, csr, fs')"
    by blast
  have "map (san_entry L) (form_sans csr_placeholder_active csr_placeholder_text csr_san_text)
      = map (classify_san L) (form_sans csr_placeholder_active csr_placeholder_text csr_san_text)"
    using form_sans_trimmed by (intro san_entry_trimmed) blast
  with generate_csr_extensions_trimmed[OF r]
  show "csr_extensions csr =
        (if form_sans csr_placeholder_active csr_placeholder_text csr_san_text \<noteq> []
         then [(SubjectAlternativeName
                  (map (classify_san L)
                     (form_sans csr_placeholder_active csr_placeholder_text csr_san_text)), False)]
         else [])
        @ [(KeyUsage request_key_usage, True), (ExtendedKeyUsage [SERVER_AUTH, CLIENT_AUTH], False)]"
    by simp
qed

lemma demo_form_sans:
  "form_sans False [] demo_san_text
     = [''www.example.com'', ''203.0.113.5'']"
  by code_simp

lemma demo_classify:
  "classify_san demo_lib ''www.example.com'' = DNSName ''www.example.com''"
  "classify_san demo_lib ''203.0.113.5'' = IPAddress (IPv4Address 3405803781)"
  by code_simp+

text \<open>
  The example of the specification, typed into the form: common name
  \<^verbatim>\<open>example.com\<close>, the two names on two lines, RSA with 2048 bits. The request holds one
  DNS name, then one IPv4 address, and a critical key-usage extension.
\<close>

theorem generate_csr_san_classification_witness:
  "map_sum id (\<lambda>(key, csr, fs'). csr_extensions csr)
     (generate_csr_inline demo_lib demo_int Map.empty ''out'' [''Common Name'' \<mapsto> ''example.com'']
        False [] demo_san_text
        (Some ''RSA'') (Some ''2048'') None None)
   = Inr [(SubjectAlternativeName [DNSName ''www.example.com'', IPAddress (IPv4Address 3405803781)], False),
          (KeyUsage request_key_usage, True),
          (ExtendedKeyUsage [SERVER_AUTH, CLIENT_AUTH], False)]"
proof -
  have "\<not> isl (generate_csr_inline demo_lib demo_int Map.empty ''out''
        [''Common Name'' \<mapsto> ''example.com''] False []
        demo_san_text
        (Some ''RSA'') (Some ''2048'') None None)"
    by code_simp
  then obtain key csr fs' where r: "generate_csr_inline demo_lib demo_int Map.empty ''out''
        [''Common Name'' \<mapsto> ''example.com''] False []
        demo_san_text
        (Some ''RSA'') (Some ''2048'') None None = Inr (key, csr, fs')"
    by (cases "generate_csr_inline demo_lib demo_int Map.empty ''out''
        [''Common Name'' \<mapsto> ''example.com''] False []
        demo_san_text
        (Some ''RSA'') (Some ''2048'') None None") auto
  from generate_csr_san_classification[where L = demo_lib and py_int = demo_int and fs = Map.empty
      and dir = "''out''" and csr_entries = "[''Common Name'' \<mapsto> ''example.com'']"
      and csr_placeholder_active = False and csr_placeholder_text = "[]"
      and csr_san_text = demo_san_text
      and csr_key_type_var = "Some ''RSA''" and csr_key_size_var = "Some ''2048''"
      and csr_ecc_curve_var = None and csr_pass_entry = None
      and key = key and csr = csr and fs' = fs'] r
  have "csr_extensions csr =
        (if form_sans False [] demo_san_text \<noteq> []
         then [(SubjectAlternativeName
                  (map (classify_san demo_lib)
                     (form_sans False [] demo_san_text)),
                False)]
         else [])
        @ [(KeyUsage request_key_usage, True), (ExtendedKeyUsage [SERVER_AUTH, CLIENT_AUTH], False)]"
    by blast
  then have "csr_extensions csr =
      [(SubjectAlternativeName [DNSName ''www.example.com'', IPAddress (IPv4Address 3405803781)], False),
       (KeyUsage request_key_usage, True),
       (ExtendedKeyUsage [SERVER_AUTH, CLIENT_AUTH], False)]"
    by (simp add: demo_form_sans demo_classify)
  then show ?thesis by (simp add: r)
qed

text \<open>
  A direct call of \<^verbatim>\<open>generate_csr_from_data\<close> with a name that is not trimmed, which the
  form never makes: the name is trimmed before it is classified.
\<close>

lemma generate_csr_untrimmed_name:
  "map_sum id (\<lambda>(key, csr, fs'). csr_extensions csr)
     (generate_csr_from_data demo_lib Map.empty ''out'' Map.empty
        ['' 203.0.113.5''] ''RSA'' 2048 ''P-256'' [])
   = Inr [(SubjectAlternativeName [IPAddress (IPv4Address 3405803781)], False),
          (KeyUsage request_key_usage, True),
          (ExtendedKeyUsage [SERVER_AUTH, CLIENT_AUTH], False)]"
  by code_simp

end
